theory Spec2Isabelle
  imports Complex_Main "HOL-Library.Word" "HOL-Library.Signed_Division" "HOL-Library.Log_Nat"
begin

section \<open>Fruit Ninja: the game core of FruitNinja.c\<close>

text \<open>
  The embedding follows FruitNinja.c function by function. The globals of the C file
  are the fields of the record \<open>game\<close>; every function that mutates them takes the
  record and returns the new one. What the program reads from raylib during one frame
  (frame time, pointer position, button events, random draws) is the record \<open>input\<close>.

  Conventions:
  \<^item> C \<open>float\<close> is the type \<open>float32\<close>: a finite value, an infinity or NaN. Every
    operation rounds its exact result to binary32 (24 bits, nearest, ties to even,
    subnormals below \<open>2 powi (- 126)\<close>, overflow to an infinity); comparisons with NaN
    are false. The sign of zero is not kept. The \<open>double\<close> expressions of the program
    are constant expressions and are rounded to binary64.
  \<^item> The accumulating counters \<open>score\<close> and \<open>fruitsSlashed\<close> are 32-bit words, read as
    signed by \<open>sint\<close>, so \<open>+\<close> wraps. The write cursors and the random draws are \<open>int\<close>;
    the remainder \<open>%\<close> of C is the truncated \<open>smod\<close>.
  \<^item> The arrays \<open>fruits[48]\<close> and \<open>particles[16]\<close> are lists. A write through a
    cursor that lies outside the array is undefined in C: the functions that write
    through a cursor return \<open>None\<close> there.
  \<^item> Drawing, sound and music calls do not touch the game state and are left out.
\<close>

subsection \<open>Binary floating point\<close>

text \<open>
  \<open>ilog2 x\<close> is the exponent \<open>e\<close> with \<open>2 powi e \<le> x < 2 powi (e + 1)\<close> of a positive
  \<open>x\<close>; \<open>round_even\<close> rounds to the nearest integer, a tie to the even one;
  \<open>round_binary p emin\<close> rounds to \<open>p\<close> significant bits with the quantum never below
  \<open>2 powi emin\<close>.
\<close>

definition ilog2 :: "real \<Rightarrow> int" where
  "ilog2 x = (if 1 \<le> x then bitlen \<lfloor>x\<rfloor> - 1 else - bitlen (\<lceil>1 / x\<rceil> - 1))"

definition round_even :: "real \<Rightarrow> int" where
  "round_even r =
     (let f = \<lfloor>r\<rfloor>; d = r - of_int f
      in if d < 1 / 2 then f else if 1 / 2 < d then f + 1 else if even f then f else f + 1)"

definition round_binary :: "nat \<Rightarrow> int \<Rightarrow> real \<Rightarrow> real" where
  "round_binary p emin x =
     (if x = 0 then 0
      else let q = max (ilog2 \<bar>x\<bar> - (int p - 1)) emin
           in of_int (round_even (x / 2 powi q)) * 2 powi q)"

text \<open>A \<open>double\<close> result (none of the program's constant expressions overflows).\<close>

definition round_double :: "real \<Rightarrow> real" where
  "round_double x = round_binary 53 (- 1074) x"

datatype float32 = Finite (real_of: real) | PInf | NInf | NaN

definition is_finite :: "float32 \<Rightarrow> bool" where
  "is_finite a = (case a of Finite x \<Rightarrow> True | _ \<Rightarrow> False)"

text \<open>The binary32 result of an operation whose exact result is \<open>x\<close>.\<close>

definition to_float32 :: "real \<Rightarrow> float32" where
  "to_float32 x =
     (let r = round_binary 24 (- 149) x
      in if 2 ^ 128 \<le> r then PInf else if r \<le> - (2 ^ 128) then NInf else Finite r)"

text \<open>The conversions \<open>int\<close> to \<open>float\<close>, and floating to \<open>int\<close> (truncation towards zero;
  undefined in C for a value that is not finite, which the program never converts).\<close>

definition float_of_int :: "int \<Rightarrow> float32" where
  "float_of_int n = to_float32 (of_int n)"

definition to_int :: "real \<Rightarrow> int" where
  "to_int r = (if 0 \<le> r then \<lfloor>r\<rfloor> else \<lceil>r\<rceil>)"

definition float_to_int :: "float32 \<Rightarrow> int" where
  "float_to_int a = (case a of Finite x \<Rightarrow> to_int x | _ \<Rightarrow> 0)"

instantiation float32 :: "{zero, plus, uminus, minus, inverse, ord}"
begin

definition zero_float32 :: float32 where
  "zero_float32 = Finite 0"

fun plus_float32 :: "float32 \<Rightarrow> float32 \<Rightarrow> float32" where
  "plus_float32 (Finite x) (Finite y) = to_float32 (x + y)"
| "plus_float32 NaN b = NaN"
| "plus_float32 a NaN = NaN"
| "plus_float32 PInf NInf = NaN"
| "plus_float32 NInf PInf = NaN"
| "plus_float32 PInf b = PInf"
| "plus_float32 a PInf = PInf"
| "plus_float32 NInf b = NInf"
| "plus_float32 a NInf = NInf"

fun uminus_float32 :: "float32 \<Rightarrow> float32" where
  "uminus_float32 (Finite x) = Finite (- x)"
| "uminus_float32 PInf = NInf"
| "uminus_float32 NInf = PInf"
| "uminus_float32 NaN = NaN"

definition minus_float32 :: "float32 \<Rightarrow> float32 \<Rightarrow> float32" where
  "minus_float32 a b = a + (- b)"

fun divide_float32 :: "float32 \<Rightarrow> float32 \<Rightarrow> float32" where
  "divide_float32 (Finite x) (Finite y) =
     (if y = 0 then (if x = 0 then NaN else if 0 < x then PInf else NInf)
      else to_float32 (x / y))"
| "divide_float32 NaN b = NaN"
| "divide_float32 a NaN = NaN"
| "divide_float32 (Finite x) b = Finite 0"
| "divide_float32 PInf (Finite y) = (if 0 \<le> y then PInf else NInf)"
| "divide_float32 NInf (Finite y) = (if 0 \<le> y then NInf else PInf)"
| "divide_float32 a b = NaN"

definition inverse_float32 :: "float32 \<Rightarrow> float32" where
  "inverse_float32 a = divide (Finite 1) a"

fun less_float32 :: "float32 \<Rightarrow> float32 \<Rightarrow> bool" where
  "less_float32 (Finite x) (Finite y) = (x < y)"
| "less_float32 NaN b = False"
| "less_float32 a NaN = False"
| "less_float32 a NInf = False"
| "less_float32 PInf b = False"
| "less_float32 NInf b = True"
| "less_float32 a PInf = True"

definition less_eq_float32 :: "float32 \<Rightarrow> float32 \<Rightarrow> bool" where
  "less_eq_float32 a b \<longleftrightarrow> a < b \<or> a = b \<and> a \<noteq> NaN"

instance ..

end

subsection \<open>Defines, enumerations, structures\<close>

definition MAX_FRUIT_COUNT :: nat where
  "MAX_FRUIT_COUNT = 48"

definition MAX_PARTICLE_COUNT :: nat where
  "MAX_PARTICLE_COUNT = 16"

datatype GameState = startState | playState | loseState

datatype FruitType = appleType | bananaType | cherryType | donutType

record Vector2 =
  xc :: float32
  yc :: float32

record Fruit =
  type :: FruitType
  position :: Vector2
  velocity :: Vector2
  enabled :: bool

record Particle =
  pposition :: Vector2
  elapsed :: float32
  penabled :: bool

type_synonym int32 = "32 word"

subsection \<open>Constants\<close>

text \<open>
  An initialiser written as an integer literal is converted from \<open>int\<close>; one written
  with a decimal point is a \<open>double\<close> expression, rounded to binary64 and then converted
  to \<open>float\<close>.
\<close>

definition screenWidth :: int where
  "screenWidth = 960"

definition screenHeight :: int where
  "screenHeight = 540"

definition targetFPS :: int where
  "targetFPS = 60"

definition appleScore :: int32 where
  "appleScore = 1"

definition bananaScore :: int32 where
  "bananaScore = appleScore * 3"

definition cherryScore :: int32 where
  "cherryScore = bananaScore * 3"

definition fruitRadius :: int where
  "fruitRadius = 32"

definition appleSpawnCeiling :: int where
  "appleSpawnCeiling = 50"

definition bananaSpawnCeiling :: int where
  "bananaSpawnCeiling = 75"

definition cherrySpawnCeiling :: int where
  "cherrySpawnCeiling = 85"

definition donutSpawnCeiling :: int where
  "donutSpawnCeiling = 100"

definition minimumFruitThrust :: float32 where
  "minimumFruitThrust = float_of_int 5"

definition maximumFruitThrust :: float32 where
  "maximumFruitThrust = float_of_int 20"

definition minimumFruitStrafe :: float32 where
  "minimumFruitStrafe = float_of_int (- 5)"

definition maximumFruitStrafe :: float32 where
  "maximumFruitStrafe = float_of_int 5"

definition minimumSpawnRate :: float32 where
  "minimumSpawnRate = float_of_int 1"

definition maximumSpawnRate :: float32 where
  "maximumSpawnRate = to_float32 (round_double (1 / 10))"

definition maximumElapsed :: float32 where
  "maximumElapsed = float_of_int 30"

definition gravity :: float32 where
  "gravity = to_float32 (round_double (- 10 / of_int targetFPS))"

definition particleMaximumElapsed :: float32 where
  "particleMaximumElapsed = to_float32 (round_double (1 / 10))"

subsection \<open>Properties (the globals) and the frame input\<close>

record game =
  state :: GameState
  fruits :: "Fruit list"
  particles :: "Particle list"
  nextFruitIndex :: int
  nextParticleIndex :: int
  score :: int32
  fruitsSlashed :: int32
  spawnElapsed :: float32
  totalElapsed :: float32
  slashing :: bool

text \<open>
  What raylib answers during one frame. \<open>GetFrameTime\<close> and \<open>GetMousePosition\<close> are
  constant within a frame; \<open>GetRandomValue lo hi\<close> is the draw that the call with these
  bounds returns in this frame (\<open>SpawnFruit\<close> runs at most once per frame and its four
  calls have four different pairs of bounds).
\<close>

record input =
  GetFrameTime :: float32
  GetMousePosition :: Vector2
  IsMouseButtonPressed :: bool
  IsMouseButtonReleased :: bool
  GetRandomValue :: "int \<Rightarrow> int \<Rightarrow> int"

text \<open>
  Modelled from the spec: raylib's \<open>CheckCollisionPointCircle\<close> is a library function and
  not part of FruitNinja.c. The spec reads it as "the pointer position lies within a
  fixed-radius circle centered on" the given point: the coordinates are finite and the
  distance of \<open>point\<close> from \<open>center\<close> is at most \<open>radius\<close>, written with squares.
\<close>

definition CheckCollisionPointCircle :: "Vector2 \<Rightarrow> Vector2 \<Rightarrow> float32 \<Rightarrow> bool" where
  "CheckCollisionPointCircle point center radius \<longleftrightarrow>
     is_finite (xc point) \<and> is_finite (yc point) \<and>
     is_finite (xc center) \<and> is_finite (yc center) \<and> is_finite radius \<and>
     (real_of (xc point) - real_of (xc center))\<^sup>2 +
     (real_of (yc point) - real_of (yc center))\<^sup>2 \<le> (real_of radius)\<^sup>2"

text \<open>A loop \<open>for (int i = 0; i < n; ++i) body\<close> over the state.\<close>

definition for_loop :: "nat \<Rightarrow> (nat \<Rightarrow> 's \<Rightarrow> 's) \<Rightarrow> 's \<Rightarrow> 's" where
  "for_loop n body s = fold body [0..<n] s"

text \<open>The statements \<open>fruits[i].enabled = false\<close> and \<open>particles[i].enabled = false\<close>.\<close>

definition disable_fruit :: "nat \<Rightarrow> game \<Rightarrow> game" where
  "disable_fruit i s = s\<lparr>fruits := (fruits s)[i := (fruits s ! i)\<lparr>enabled := False\<rparr>]\<rparr>"

definition disable_particle :: "nat \<Rightarrow> game \<Rightarrow> game" where
  "disable_particle i s =
     s\<lparr>particles := (particles s)[i := (particles s ! i)\<lparr>penabled := False\<rparr>]\<rparr>"

subsection \<open>Initialize\<close>

text \<open>
  The globals have static storage: before \<open>Initialize\<close> runs every field is zero
  (the first enumerator, 0, false). \<open>Initialize\<close> does not assign \<open>score\<close>.
\<close>

definition zero_vector :: Vector2 where
  "zero_vector = \<lparr>xc = 0, yc = 0\<rparr>"

definition static_storage :: game where
  "static_storage =
     \<lparr>state = startState,
      fruits = replicate MAX_FRUIT_COUNT
        \<lparr>type = appleType, position = zero_vector, velocity = zero_vector, enabled = False\<rparr>,
      particles = replicate MAX_PARTICLE_COUNT
        \<lparr>pposition = zero_vector, elapsed = 0, penabled = False\<rparr>,
      nextFruitIndex = 0, nextParticleIndex = 0, score = 0, fruitsSlashed = 0,
      spawnElapsed = 0, totalElapsed = 0, slashing = False\<rparr>"

definition Initialize :: "game \<Rightarrow> game" where
  "Initialize s0 =
     (let s1 = s0\<lparr>state := startState\<rparr>;
          s2 = for_loop MAX_FRUIT_COUNT disable_fruit s1;
          s3 = for_loop MAX_PARTICLE_COUNT disable_particle s2
      in s3\<lparr>nextFruitIndex := 0, nextParticleIndex := 0, fruitsSlashed := 0,
            spawnElapsed := 0, totalElapsed := 0, slashing := False\<rparr>)"

subsection \<open>State transitions\<close>

definition FromStartToPlayState :: "game \<Rightarrow> game" where
  "FromStartToPlayState s = s\<lparr>state := playState\<rparr>"

definition FromPlayToLoseState :: "game \<Rightarrow> game" where
  "FromPlayToLoseState s0 =
     (let s1 = s0\<lparr>state := loseState\<rparr>;
          s2 = for_loop MAX_FRUIT_COUNT disable_fruit s1;
          s3 = for_loop MAX_PARTICLE_COUNT disable_particle s2
      in s3\<lparr>spawnElapsed := 0, totalElapsed := 0, slashing := False\<rparr>)"

definition FromLoseToStartState :: "game \<Rightarrow> game" where
  "FromLoseToStartState s = s\<lparr>state := startState, fruitsSlashed := 0, score := 0\<rparr>"

subsection \<open>SpawnFruit and SlashFruit\<close>

text \<open>
  Lines 427-442 of \<open>SpawnFruit\<close>: the draw selects the type. The chain of comparisons
  has no final \<open>else\<close>: a draw above \<open>donutSpawnCeiling\<close> leaves the slot's type as it
  was.
\<close>

definition assign_type :: "int \<Rightarrow> Fruit \<Rightarrow> Fruit" where
  "assign_type spawnValue f =
     (if spawnValue \<le> appleSpawnCeiling then f\<lparr>type := appleType\<rparr>
      else if spawnValue \<le> bananaSpawnCeiling then f\<lparr>type := bananaType\<rparr>
      else if spawnValue \<le> cherrySpawnCeiling then f\<lparr>type := cherryType\<rparr>
      else if spawnValue \<le> donutSpawnCeiling then f\<lparr>type := donutType\<rparr>
      else f)"

text \<open>
  \<open>SpawnFruit\<close> writes the slot \<open>fruits[nextFruitIndex]\<close> and advances the cursor. The
  bounds \<open>screenWidth * 0.25\<close> and \<open>screenWidth * 0.75\<close> are \<open>double\<close> products converted
  to \<open>int\<close>; the strafe and thrust bounds are \<open>float\<close> constants converted to \<open>int\<close>; the
  draws are \<open>int\<close> and are converted to \<open>float\<close> when stored.
\<close>

definition SpawnFruit :: "input \<Rightarrow> game \<Rightarrow> game option" where
  "SpawnFruit inp s =
     (let n = nextFruitIndex s in
      if n < 0 \<or> int (length (fruits s)) \<le> n then None
      else
        let spawnValue = GetRandomValue inp 1 100;
            f0 = fruits s ! nat n;
            f1 = assign_type spawnValue f0;
            f2 = f1\<lparr>position :=
                   \<lparr>xc = float_of_int
                          (GetRandomValue inp
                             (to_int (round_double (of_int screenWidth * round_double 0.25)))
                             (to_int (round_double (of_int screenWidth * round_double 0.75)))),
                    yc = float_of_int screenHeight\<rparr>\<rparr>;
            f3 = f2\<lparr>velocity :=
                   \<lparr>xc = float_of_int
                          (GetRandomValue inp (float_to_int minimumFruitStrafe)
                                              (float_to_int maximumFruitStrafe)),
                    yc = float_of_int
                          (- GetRandomValue inp (float_to_int minimumFruitThrust)
                                                (float_to_int maximumFruitThrust))\<rparr>\<rparr>;
            f4 = f3\<lparr>enabled := True\<rparr>
        in Some (s\<lparr>fruits := (fruits s)[nat n := f4],
                   nextFruitIndex := (n + 1) smod int MAX_FRUIT_COUNT\<rparr>))"

text \<open>
  \<open>SlashFruit\<close> is only called as \<open>SlashFruit(&fruits[i])\<close>: the pointer is the index
  \<open>i\<close> into the global array, which \<open>FromPlayToLoseState\<close> rewrites as a whole.
\<close>

definition SlashFruit :: "nat \<Rightarrow> game \<Rightarrow> game" where
  "SlashFruit i s0 =
     (let s = disable_fruit i s0 in
      if type (fruits s ! i) = appleType then
        s\<lparr>fruitsSlashed := fruitsSlashed s + 1, score := score s + appleScore\<rparr>
      else if type (fruits s ! i) = bananaType then
        s\<lparr>fruitsSlashed := fruitsSlashed s + 1, score := score s + bananaScore\<rparr>
      else if type (fruits s ! i) = cherryType then
        s\<lparr>fruitsSlashed := fruitsSlashed s + 1, score := score s + cherryScore\<rparr>
      else if type (fruits s ! i) = donutType then
        FromPlayToLoseState s
      else s)"

subsection \<open>UpdatePlayState, piece by piece\<close>

text \<open>Lines 281-282: both timers accumulate the frame time.\<close>

definition accumulate_time :: "input \<Rightarrow> game \<Rightarrow> game" where
  "accumulate_time inp s =
     s\<lparr>totalElapsed := totalElapsed s + GetFrameTime inp,
       spawnElapsed := spawnElapsed s + GetFrameTime inp\<rparr>"

text \<open>Lines 283-290: a press sets \<open>slashing\<close>, otherwise a release clears it.\<close>

definition read_slash_input :: "input \<Rightarrow> game \<Rightarrow> game" where
  "read_slash_input inp s =
     (if IsMouseButtonPressed inp then s\<lparr>slashing := True\<rparr>
      else if IsMouseButtonReleased inp then s\<lparr>slashing := False\<rparr>
      else s)"

text \<open>Lines 293-296: the write through \<open>nextParticleIndex\<close>.\<close>

definition append_particle :: "input \<Rightarrow> game \<Rightarrow> game option" where
  "append_particle inp s =
     (let n = nextParticleIndex s in
      if n < 0 \<or> int (length (particles s)) \<le> n then None
      else
        let p0 = particles s ! nat n;
            p1 = p0\<lparr>pposition := GetMousePosition inp\<rparr>;
            p2 = p1\<lparr>elapsed := 0\<rparr>;
            p3 = p2\<lparr>penabled := True\<rparr>
        in Some (s\<lparr>particles := (particles s)[nat n := p3],
                   nextParticleIndex := (n + 1) smod int MAX_PARTICLE_COUNT\<rparr>))"

text \<open>Lines 291-297.\<close>

definition trail_step :: "input \<Rightarrow> game \<Rightarrow> game option" where
  "trail_step inp s = (if slashing s then append_particle inp s else Some s)"

text \<open>Lines 300-307: the body of the loop over the particles.\<close>

definition age_particle :: "input \<Rightarrow> nat \<Rightarrow> game \<Rightarrow> game" where
  "age_particle inp i s =
     (if penabled (particles s ! i) then
        let p0 = particles s ! i;
            p1 = p0\<lparr>elapsed := elapsed p0 + GetFrameTime inp\<rparr>;
            p2 = (if elapsed p1 > particleMaximumElapsed then p1\<lparr>penabled := False\<rparr> else p1)
        in s\<lparr>particles := (particles s)[i := p2]\<rparr>
      else s)"

text \<open>Lines 309-314: the spawn threshold and the test that triggers a spawn.\<close>

definition spawnElapsedThreshold :: "float32 \<Rightarrow> float32" where
  "spawnElapsedThreshold elapsedTotal = minimumSpawnRate - elapsedTotal / maximumElapsed"

definition spawn_limit :: "float32 \<Rightarrow> float32" where
  "spawn_limit elapsedTotal =
     (if spawnElapsedThreshold elapsedTotal < maximumSpawnRate then maximumSpawnRate
      else spawnElapsedThreshold elapsedTotal)"

definition spawn_step :: "input \<Rightarrow> game \<Rightarrow> game option" where
  "spawn_step inp s =
     (if spawnElapsed s > spawn_limit (totalElapsed s)
      then SpawnFruit inp (s\<lparr>spawnElapsed := 0\<rparr>)
      else Some s)"

text \<open>Lines 317-333: the body of the loop over the fruits.\<close>

definition move_fruit :: "Fruit \<Rightarrow> Fruit" where
  "move_fruit f0 =
     (let f1 = f0\<lparr>position := (position f0)\<lparr>xc := xc (position f0) + xc (velocity f0)\<rparr>\<rparr>;
          f2 = f1\<lparr>position := (position f1)\<lparr>yc := yc (position f1) + yc (velocity f1)\<rparr>\<rparr>
      in f2\<lparr>velocity := (velocity f2)\<lparr>yc := yc (velocity f2) - gravity\<rparr>\<rparr>)"

definition update_fruit :: "input \<Rightarrow> nat \<Rightarrow> game \<Rightarrow> game" where
  "update_fruit inp i s =
     (if enabled (fruits s ! i) then
        if yc (position (fruits s ! i)) > float_of_int screenHeight then
          disable_fruit i s
        else if slashing s \<and>
                CheckCollisionPointCircle (GetMousePosition inp)
                  \<lparr>xc = xc (position (fruits s ! i)) + float_of_int fruitRadius,
                   yc = yc (position (fruits s ! i)) + float_of_int fruitRadius\<rparr>
                  (float_of_int fruitRadius) then
          SlashFruit i s
        else
          s\<lparr>fruits := (fruits s)[i := move_fruit (fruits s ! i)]\<rparr>
      else s)"

definition UpdatePlayState :: "input \<Rightarrow> game \<Rightarrow> game option" where
  "UpdatePlayState inp s0 =
     (let s1 = accumulate_time inp s0;
          s2 = read_slash_input inp s1
      in case trail_step inp s2 of
           None \<Rightarrow> None
         | Some s3 \<Rightarrow>
             (let s4 = for_loop MAX_PARTICLE_COUNT (age_particle inp) s3
              in case spawn_step inp s4 of
                   None \<Rightarrow> None
                 | Some s5 \<Rightarrow> Some (for_loop MAX_FRUIT_COUNT (update_fruit inp) s5)))"

subsection \<open>The other states, Update and the main loop\<close>

definition UpdateStartState :: "input \<Rightarrow> game \<Rightarrow> game" where
  "UpdateStartState inp s = (if IsMouseButtonPressed inp then FromStartToPlayState s else s)"

definition UpdateLoseState :: "input \<Rightarrow> game \<Rightarrow> game" where
  "UpdateLoseState inp s = (if IsMouseButtonPressed inp then FromLoseToStartState s else s)"

definition Update :: "input \<Rightarrow> game \<Rightarrow> game option" where
  "Update inp s =
     (if state s = startState then Some (UpdateStartState inp s)
      else if state s = playState then UpdatePlayState inp s
      else if state s = loseState then Some (UpdateLoseState inp s)
      else Some s)"

text \<open>
  \<open>main\<close>: \<open>Initialize\<close>, then one \<open>Update\<close> per frame until the window closes. The list
  holds the inputs of the frames that were played.
\<close>

definition initial_game :: game where
  "initial_game = Initialize static_storage"

fun run_frames :: "input list \<Rightarrow> game \<Rightarrow> game option" where
  "run_frames [] s = Some s"
| "run_frames (inp # inps) s =
     (case Update inp s of None \<Rightarrow> None | Some s' \<Rightarrow> run_frames inps s')"

text \<open>The array types of the C file, and the cursors inside their arrays.\<close>

definition pools_sized :: "game \<Rightarrow> bool" where
  "pools_sized s \<longleftrightarrow>
     length (fruits s) = MAX_FRUIT_COUNT \<and> length (particles s) = MAX_PARTICLE_COUNT"

definition cursors_in_bounds :: "game \<Rightarrow> bool" where
  "cursors_in_bounds s \<longleftrightarrow>
     0 \<le> nextFruitIndex s \<and> nextFruitIndex s < int MAX_FRUIT_COUNT \<and>
     0 \<le> nextParticleIndex s \<and> nextParticleIndex s < int MAX_PARTICLE_COUNT"

text \<open>No slot of either pool is enabled.\<close>

definition pools_cleared :: "game \<Rightarrow> bool" where
  "pools_cleared s \<longleftrightarrow>
     list_all (\<lambda>f. \<not> enabled f) (fruits s) \<and> list_all (\<lambda>p. \<not> penabled p) (particles s)"

text \<open>
  The primary button is down after a sequence of frames when its last event was a press:
  raylib reports a press in the frame in which the button goes down and a release in
  the frame in which it goes up.
\<close>

fun button_down :: "bool \<Rightarrow> input list \<Rightarrow> bool" where
  "button_down d [] = d"
| "button_down d (inp # inps) =
     button_down (if IsMouseButtonPressed inp then True
                  else if IsMouseButtonReleased inp then False else d) inps"

subsection \<open>A concrete frame\<close>

text \<open>
  A frame input of 1/64 second with the pointer at (132, 132) and a generator that
  returns its lower bound, and a Play state that holds one enabled fruit of a given type
  in slot 0 at (100, 100), so that the pointer sits on the fruit's centre.
\<close>

definition example_input :: input where
  "example_input =
     \<lparr>GetFrameTime = Finite (1 / 64),
      GetMousePosition = \<lparr>xc = Finite 132, yc = Finite 132\<rparr>,
      IsMouseButtonPressed = False, IsMouseButtonReleased = False,
      GetRandomValue = (\<lambda>lo hi. lo)\<rparr>"

text \<open>The frame in which the primary button goes down.\<close>

definition press_input :: input where
  "press_input = example_input\<lparr>IsMouseButtonPressed := True\<rparr>"

definition example_fruit :: "FruitType \<Rightarrow> Fruit" where
  "example_fruit t =
     \<lparr>type = t, position = \<lparr>xc = Finite 100, yc = Finite 100\<rparr>,
      velocity = \<lparr>xc = Finite 2, yc = Finite (- 7)\<rparr>, enabled = True\<rparr>"

definition example_game :: "FruitType \<Rightarrow> game" where
  "example_game t =
     initial_game\<lparr>state := playState,
       fruits := (fruits initial_game)[0 := example_fruit t], slashing := True\<rparr>"

text \<open>The same frame with the pointer away from every fruit.\<close>

definition far_input :: input where
  "far_input = example_input\<lparr>GetMousePosition := \<lparr>xc = Finite 400, yc = Finite 300\<rparr>\<rparr>"

text \<open>A second fruit, in slot 1, that has fallen below the screen.\<close>

definition example_missed :: game where
  "example_missed =
     (example_game appleType)\<lparr>fruits := (fruits (example_game appleType))
        [1 := \<lparr>type = bananaType, position = \<lparr>xc = Finite 300, yc = Finite 541\<rparr>,
               velocity = \<lparr>xc = Finite 0, yc = Finite 9\<rparr>, enabled = True\<rparr>]\<rparr>"

text \<open>A Lose state that still shows a score.\<close>

definition example_lost :: game where
  "example_lost =
     (FromPlayToLoseState (example_game donutType))\<lparr>score := 13, fruitsSlashed := 5\<rparr>"

section \<open>Binary rounding\<close>

lemma pow2_le_real: "2 ^ k \<le> (n::int) \<Longrightarrow> (2::real) ^ k \<le> real_of_int n"
  by (metis of_int_le_iff of_int_numeral of_int_power)

lemma real_le_pow2: "(n::int) \<le> 2 ^ k \<Longrightarrow> real_of_int n \<le> (2::real) ^ k"
  by (metis of_int_le_iff of_int_numeral of_int_power)

lemma ilog2_bounds:
  assumes "0 < x"
  shows "2 powi ilog2 x \<le> x" and "x < 2 powi (ilog2 x + 1)"
proof -
  have "2 powi ilog2 x \<le> x \<and> x < 2 powi (ilog2 x + 1)"
  proof (cases "1 \<le> x")
    case True
    define n where "n = \<lfloor>x\<rfloor>"
    have n: "0 < n" using True by (simp add: n_def)
    have b: "1 \<le> bitlen n"
      using n bitlen_eq_zero_iff [of n] bitlen_nonneg [of n] by linarith
    from bitlen_bounds [OF n]
    have lo: "2 ^ nat (bitlen n - 1) \<le> n" and hi: "n < 2 ^ nat (bitlen n)" by simp_all
    have e: "ilog2 x = bitlen n - 1"
      using True by (simp add: ilog2_def n_def)
    have p1: "(2::real) powi (bitlen n - 1) = 2 ^ nat (bitlen n - 1)"
      using b by (simp add: power_int_def)
    have p2: "(2::real) powi (bitlen n - 1 + 1) = 2 ^ nat (bitlen n)"
      using b by (simp add: power_int_def)
    have "(2::real) ^ nat (bitlen n - 1) \<le> real_of_int n"
      using lo by (rule pow2_le_real)
    moreover have "real_of_int n \<le> x" by (simp add: n_def)
    ultimately have A: "2 powi ilog2 x \<le> x"
      unfolding e p1 by linarith
    have "n + 1 \<le> 2 ^ nat (bitlen n)" using hi by simp
    then have "real_of_int (n + 1) \<le> (2::real) ^ nat (bitlen n)"
      by (rule real_le_pow2)
    then have "real_of_int n + 1 \<le> (2::real) ^ nat (bitlen n)"
      by simp
    moreover have "x < real_of_int n + 1" by (simp add: n_def)
    ultimately have B: "x < 2 powi (ilog2 x + 1)"
      unfolding e p2 by linarith
    from A B show ?thesis ..
  next
    case False
    define c where "c = \<lceil>1 / x\<rceil>"
    define m where "m = c - 1"
    have x1: "1 < 1 / x" using assms False by simp
    have c: "2 \<le> c" using x1 unfolding c_def by linarith
    have m: "0 < m" using c by (simp add: m_def)
    have b: "1 \<le> bitlen m"
      using m bitlen_eq_zero_iff [of m] bitlen_nonneg [of m] by linarith
    from bitlen_bounds [OF m]
    have lo: "2 ^ nat (bitlen m - 1) \<le> m" and hi: "m < 2 ^ nat (bitlen m)" by simp_all
    have e: "ilog2 x = - bitlen m"
      using False by (simp add: ilog2_def m_def c_def)
    have p1: "(2::real) powi (- bitlen m) = 1 / 2 ^ nat (bitlen m)"
      using b by (simp add: power_int_def inverse_eq_divide power_one_over)
    have p2: "(2::real) powi (- bitlen m + 1) = 1 / 2 ^ nat (bitlen m - 1)"
      using b by (simp add: power_int_def inverse_eq_divide power_one_over nat_diff_distrib)
    have "c \<le> 2 ^ nat (bitlen m)" using hi by (simp add: m_def)
    then have "real_of_int c \<le> (2::real) ^ nat (bitlen m)"
      by (rule real_le_pow2)
    moreover have "1 / x \<le> real_of_int c" by (simp add: c_def)
    ultimately have "1 / x \<le> 2 ^ nat (bitlen m)" by linarith
    then have "1 / 2 ^ nat (bitlen m) \<le> x"
      using assms by (simp add: field_simps)
    then have A: "2 powi ilog2 x \<le> x"
      unfolding e p1 .
    have "(2::real) ^ nat (bitlen m - 1) \<le> real_of_int m"
      using lo by (rule pow2_le_real)
    moreover have "real_of_int m < 1 / x"
      unfolding m_def c_def by linarith
    ultimately have "2 ^ nat (bitlen m - 1) < 1 / x" by linarith
    then have "x < 1 / 2 ^ nat (bitlen m - 1)"
      using assms by (simp add: field_simps)
    then have B: "x < 2 powi (ilog2 x + 1)"
      unfolding e p2 .
    from A B show ?thesis ..
  qed
  then show "2 powi ilog2 x \<le> x" and "x < 2 powi (ilog2 x + 1)" by simp_all
qed


lemma pow2_increasing: "a \<le> b \<Longrightarrow> (2::real) powi a \<le> 2 powi b"
  by (rule power_int_increasing) simp_all

lemma ilog2_mono:
  assumes "0 < x" and "x \<le> y"
  shows "ilog2 x \<le> ilog2 y"
proof (rule ccontr)
  assume "\<not> ilog2 x \<le> ilog2 y"
  then have "ilog2 y + 1 \<le> ilog2 x" by simp
  then have "(2::real) powi (ilog2 y + 1) \<le> 2 powi ilog2 x"
    by (rule pow2_increasing)
  moreover have "y < 2 powi (ilog2 y + 1)"
    using assms by (intro ilog2_bounds) simp
  moreover have "2 powi ilog2 x \<le> x"
    using assms(1) by (rule ilog2_bounds)
  ultimately show False using assms(2) by linarith
qed

lemma round_even_of_int [simp]: "round_even (of_int n) = n"
  by (simp add: round_even_def)

lemma round_even_range: "\<lfloor>r\<rfloor> \<le> round_even r" "round_even r \<le> \<lfloor>r\<rfloor> + 1"
  by (simp_all add: round_even_def Let_def)

lemma round_even_mono:
  assumes "r \<le> s"
  shows "round_even r \<le> round_even s"
proof (cases "\<lfloor>r\<rfloor> = \<lfloor>s\<rfloor>")
  case True
  then have "r - of_int \<lfloor>r\<rfloor> \<le> s - of_int \<lfloor>r\<rfloor>"
    using assms by simp
  then show ?thesis
    unfolding round_even_def Let_def True [symmetric]
    by (simp split: if_splits)
next
  case False
  then have "\<lfloor>r\<rfloor> + 1 \<le> \<lfloor>s\<rfloor>"
    using floor_mono [OF assms] by linarith
  then show ?thesis
    using round_even_range(2) [of r] round_even_range(1) [of s] by linarith
qed

lemma floor_minus_nonint:
  assumes "r \<noteq> of_int \<lfloor>r\<rfloor>"
  shows "\<lfloor>- r\<rfloor> = - \<lfloor>r\<rfloor> - 1"
proof (rule floor_unique)
  have "of_int \<lfloor>r\<rfloor> < r"
    using assms of_int_floor_le [of r] by linarith
  then show "- r < of_int (- \<lfloor>r\<rfloor> - 1) + 1" by simp
  have "r < of_int \<lfloor>r\<rfloor> + 1" by linarith
  then show "of_int (- \<lfloor>r\<rfloor> - 1) \<le> - r" by simp
qed

lemma round_even_minus: "round_even (- r) = - round_even r"
proof (cases "r = of_int \<lfloor>r\<rfloor>")
  case True
  have "round_even (- of_int \<lfloor>r\<rfloor>) = - \<lfloor>r\<rfloor>"
    using round_even_of_int [of "- \<lfloor>r\<rfloor>"] by simp
  then show ?thesis
    using True round_even_of_int [of "\<lfloor>r\<rfloor>"] by simp
next
  case False
  let ?f = "\<lfloor>r\<rfloor>"
  let ?d = "r - of_int ?f"
  have d: "- r - of_int (- ?f - 1) = 1 - ?d" by simp
  consider "?d < 1 / 2" | "1 / 2 < ?d" | "?d = 1 / 2" by linarith
  then show ?thesis
  proof cases
    case 1
    then show ?thesis
      unfolding round_even_def Let_def floor_minus_nonint [OF False] d by simp
  next
    case 2
    then show ?thesis
      unfolding round_even_def Let_def floor_minus_nonint [OF False] d by simp
  next
    case 3
    then show ?thesis
      unfolding round_even_def Let_def floor_minus_nonint [OF False] d by simp
  qed
qed

lemma pow2_pos [simp]: "0 < (2::real) powi a"
  by simp

lemma pow2_split: "(2::real) powi (a - b) * 2 powi b = 2 powi a"
  by (simp add: power_int_diff)

lemma pow2_nat: "0 \<le> a \<Longrightarrow> (2::real) powi a = of_int (2 ^ nat a)"
  by (simp add: power_int_def)

lemma round_binary_minus: "round_binary p emin (- x) = - round_binary p emin x"
  by (simp add: round_binary_def Let_def round_even_minus)

lemma round_binary_nonneg:
  assumes "0 \<le> x"
  shows "0 \<le> round_binary p emin x"
proof -
  have "0 \<le> round_even (x / 2 powi q)" for q
  proof -
    have "0 \<le> x / 2 powi q" using assms by simp
    then have "0 \<le> \<lfloor>x / 2 powi q\<rfloor>" by simp
    with round_even_range(1) [of "x / 2 powi q"] show ?thesis by linarith
  qed
  then show ?thesis
    by (simp add: round_binary_def Let_def)
qed

lemma round_binary_mono_pos:
  assumes p: "1 \<le> p" and x: "0 < x" and xy: "x \<le> y"
  shows "round_binary p emin x \<le> round_binary p emin y"
proof -
  define ex where "ex = ilog2 x"
  define ey where "ey = ilog2 y"
  define qx where "qx = max (ex - (int p - 1)) emin"
  define qy where "qy = max (ey - (int p - 1)) emin"
  have y: "0 < y" using x xy by simp
  have e: "ex \<le> ey"
    unfolding ex_def ey_def using x xy by (rule ilog2_mono)
  have q: "qx \<le> qy"
    using e by (simp add: qx_def qy_def)
  have Rx: "round_binary p emin x = of_int (round_even (x / 2 powi qx)) * 2 powi qx"
    using x by (simp add: round_binary_def Let_def qx_def ex_def)
  have Ry: "round_binary p emin y = of_int (round_even (y / 2 powi qy)) * 2 powi qy"
    using y by (simp add: round_binary_def Let_def qy_def ey_def)
  show ?thesis
  proof (cases "qx = qy")
    case True
    have "x / 2 powi qy \<le> y / 2 powi qy"
      using xy by (simp add: divide_right_mono)
    then have "round_even (x / 2 powi qy) \<le> round_even (y / 2 powi qy)"
      by (rule round_even_mono)
    then have "real_of_int (round_even (x / 2 powi qy)) * 2 powi qy
        \<le> real_of_int (round_even (y / 2 powi qy)) * 2 powi qy"
      by (simp add: mult_right_mono)
    then show ?thesis
      by (simp add: Rx Ry True)
  next
    case False
    then have lt: "qx < qy" using q by simp
    then have qy_eq: "qy = ey - (int p - 1)"
      by (auto simp: qx_def qy_def max_def split: if_splits)
    have exy: "ex < ey"
      using lt qy_eq by (simp add: qx_def)
    \<comment> \<open>the larger argument rounds to at least \<open>2 powi ey\<close>\<close>
    have "2 powi ey \<le> y"
      unfolding ey_def using y by (rule ilog2_bounds)
    then have "2 powi ey / 2 powi qy \<le> y / 2 powi qy"
      by (simp add: divide_right_mono)
    moreover have "(2::real) powi ey / 2 powi qy = of_int (2 ^ nat (int p - 1))"
      using p by (simp add: qy_eq power_int_diff [symmetric] pow2_nat)
    ultimately have "round_even (of_int (2 ^ nat (int p - 1))) \<le> round_even (y / 2 powi qy)"
      by (intro round_even_mono) simp
    then have "real_of_int (2 ^ nat (int p - 1)) \<le> real_of_int (round_even (y / 2 powi qy))"
      by (simp only: round_even_of_int of_int_le_iff)
    then have m1: "real_of_int (2 ^ nat (int p - 1)) * 2 powi qy
        \<le> real_of_int (round_even (y / 2 powi qy)) * 2 powi qy"
      by (rule mult_right_mono) simp
    have "(2::real) powi ey = real_of_int (2 ^ nat (int p - 1)) * 2 powi qy"
      using p pow2_split [of ey qy] by (simp add: qy_eq pow2_nat)
    also note m1
    also have "real_of_int (round_even (y / 2 powi qy)) * 2 powi qy = round_binary p emin y"
      by (simp only: Ry)
    finally have lower: "2 powi ey \<le> round_binary p emin y" .
    \<comment> \<open>the smaller argument rounds to at most \<open>2 powi ey\<close>\<close>
    have d: "0 \<le> ey - qx"
      using lt qy_eq p by simp
    have "x < 2 powi (ex + 1)"
      unfolding ex_def using x by (rule ilog2_bounds)
    moreover have "(2::real) powi (ex + 1) \<le> 2 powi ey"
      using exy by (intro pow2_increasing) simp
    ultimately have "x \<le> 2 powi ey" by linarith
    then have "x / 2 powi qx \<le> 2 powi ey / 2 powi qx"
      by (simp add: divide_right_mono)
    moreover have "(2::real) powi ey / 2 powi qx = of_int (2 ^ nat (ey - qx))"
      using d by (simp add: power_int_diff [symmetric] pow2_nat)
    ultimately have "round_even (x / 2 powi qx) \<le> round_even (of_int (2 ^ nat (ey - qx)))"
      by (intro round_even_mono) simp
    then have "real_of_int (round_even (x / 2 powi qx)) \<le> real_of_int (2 ^ nat (ey - qx))"
      by (simp only: round_even_of_int of_int_le_iff)
    then have m2: "real_of_int (round_even (x / 2 powi qx)) * 2 powi qx
        \<le> real_of_int (2 ^ nat (ey - qx)) * 2 powi qx"
      by (rule mult_right_mono) simp
    have "round_binary p emin x = real_of_int (round_even (x / 2 powi qx)) * 2 powi qx"
      by (simp only: Rx)
    also note m2
    also have "real_of_int (2 ^ nat (ey - qx)) * 2 powi qx = 2 powi ey"
      using d pow2_split [of ey qx] by (simp add: pow2_nat)
    finally have upper: "round_binary p emin x \<le> 2 powi ey" .
    from lower upper show ?thesis by linarith
  qed
qed

lemma round_binary_mono:
  assumes "1 \<le> p" and "x \<le> y"
  shows "round_binary p emin x \<le> round_binary p emin y"
proof -
  consider "0 < x" | "x \<le> 0" "0 \<le> y" | "y < 0" by linarith
  then show ?thesis
  proof cases
    case 1
    then show ?thesis using assms by (intro round_binary_mono_pos)
  next
    case 2
    have "0 \<le> round_binary p emin (- x)"
      using 2(1) by (intro round_binary_nonneg) simp
    then have "round_binary p emin x \<le> 0"
      by (simp add: round_binary_minus)
    moreover have "0 \<le> round_binary p emin y"
      using 2(2) by (rule round_binary_nonneg)
    ultimately show ?thesis by linarith
  next
    case 3
    have "round_binary p emin (- y) \<le> round_binary p emin (- x)"
      using assms 3 by (intro round_binary_mono_pos) simp_all
    then show ?thesis
      by (simp add: round_binary_minus)
  qed
qed

section \<open>The float operations\<close>

lemma round_binary_int:
  assumes "\<bar>d\<bar> < 2 ^ p" and "emin \<le> 0"
  shows "round_binary p emin (of_int d) = of_int d"
proof (cases "d = 0")
  case True
  then show ?thesis by (simp add: round_binary_def)
next
  case False
  define x where "x = \<bar>real_of_int d\<bar>"
  define q where "q = max (ilog2 x - (int p - 1)) emin"
  have x: "0 < x" using False by (simp add: x_def)
  have "x < 2 ^ p"
  proof -
    have "real_of_int \<bar>d\<bar> < real_of_int (2 ^ p)"
      using assms(1) by (simp only: of_int_less_iff)
    then show ?thesis by (simp add: x_def)
  qed
  then have "x < 2 powi int p" by simp
  with ilog2_bounds(1) [OF x] have "(2::real) powi ilog2 x < 2 powi int p" by linarith
  then have "ilog2 x < int p"
    using pow2_increasing [of "int p" "ilog2 x"] by (cases "ilog2 x < int p") auto
  then have q: "q \<le> 0"
    using assms(2) by (simp add: q_def)
  have pq: "(2::real) powi q = 1 / of_int (2 ^ nat (- q))"
    using q by (simp add: power_int_def inverse_eq_divide power_one_over)
  have "real_of_int d / 2 powi q = of_int (d * 2 ^ nat (- q))"
    by (simp add: pq)
  then have "round_even (real_of_int d / 2 powi q) = d * 2 ^ nat (- q)"
    by (simp only: round_even_of_int)
  then have "of_int (round_even (real_of_int d / 2 powi q)) * 2 powi q = real_of_int d"
    by (simp add: pq)
  then show ?thesis
    using False by (simp add: round_binary_def Let_def q_def x_def)
qed

lemma float_of_int_exact:
  assumes "\<bar>d\<bar> < 2 ^ 24"
  shows "float_of_int d = Finite (of_int d)"
proof -
  have r: "round_binary 24 (- 149) (of_int d) = of_int d"
    using assms by (intro round_binary_int) simp_all
  have "\<bar>real_of_int d\<bar> < 2 ^ 24"
  proof -
    have "real_of_int \<bar>d\<bar> < real_of_int (2 ^ 24)"
      using assms by (simp only: of_int_less_iff)
    then show ?thesis by simp
  qed
  then have "real_of_int d < 2 ^ 128" "- (2 ^ 128) < real_of_int d"
    by simp_all
  then show ?thesis
    by (simp add: float_of_int_def to_float32_def r Let_def)
qed

lemma to_float32_not_NaN [simp]: "to_float32 x \<noteq> NaN"
  by (simp add: to_float32_def Let_def)

lemma less_eq_float32_simps [simp]:
  "Finite x \<le> Finite y \<longleftrightarrow> x \<le> y"
  "NInf \<le> Finite y" "Finite x \<le> PInf" "NInf \<le> PInf" "NInf \<le> NInf" "PInf \<le> PInf"
  "\<not> PInf \<le> Finite y" "\<not> Finite x \<le> NInf" "\<not> PInf \<le> NInf"
  "\<not> NaN \<le> a" "\<not> a \<le> NaN"
  by (cases a; auto simp: less_eq_float32_def)+

lemma to_float32_mono:
  assumes "x \<le> y"
  shows "to_float32 x \<le> to_float32 y"
proof -
  have "round_binary 24 (- 149) x \<le> round_binary 24 (- 149) y"
    using assms by (intro round_binary_mono) simp_all
  then show ?thesis
    by (auto simp: to_float32_def Let_def)
qed

lemma less_eq_float32_refl: "a \<noteq> NaN \<Longrightarrow> a \<le> a"
  by (simp add: less_eq_float32_def)

lemma less_eq_float32_trans: "a \<le> b \<Longrightarrow> b \<le> c \<Longrightarrow> a \<le> (c::float32)"
  by (cases a; cases b; cases c) simp_all

lemma less_eq_float32_total: "a \<noteq> NaN \<Longrightarrow> b \<noteq> NaN \<Longrightarrow> a \<le> b \<or> b \<le> (a::float32)"
  by (cases a; cases b) auto

lemma less_float32_iff: "a < b \<longleftrightarrow> a \<le> b \<and> a \<noteq> (b::float32)"
  by (cases a; cases b) auto

lemma not_less_float32: "a \<noteq> NaN \<Longrightarrow> b \<noteq> NaN \<Longrightarrow> \<not> a < b \<longleftrightarrow> b \<le> (a::float32)"
  by (cases a; cases b) auto

lemma NInf_le: "a \<noteq> NaN \<Longrightarrow> NInf \<le> a"
  by (cases a) simp_all

lemma le_PInf: "a \<noteq> NaN \<Longrightarrow> a \<le> PInf"
  by (cases a) simp_all

text \<open>The constants, as the compiler stores them.\<close>

lemma screenHeight_value: "float_of_int screenHeight = Finite 540"
  by (simp add: screenHeight_def float_of_int_exact)

lemma fruitRadius_value: "float_of_int fruitRadius = Finite 32"
  by (simp add: fruitRadius_def float_of_int_exact)

lemma minimumSpawnRate_value: "minimumSpawnRate = Finite 1"
  using float_of_int_exact [of 1] by (simp add: minimumSpawnRate_def)

lemma maximumElapsed_value: "maximumElapsed = Finite 30"
  by (simp add: maximumElapsed_def float_of_int_exact)

lemma maximumSpawnRate_value: "maximumSpawnRate = Finite (13421773 / 134217728)"
  by code_simp

lemma particleMaximumElapsed_value: "particleMaximumElapsed = Finite (13421773 / 134217728)"
  by code_simp

lemma gravity_value: "gravity = Finite (- (11184811 / 67108864))"
  by code_simp

lemma spawn_bounds_value:
  "to_int (round_double (of_int screenWidth * round_double 0.25)) = 240"
  "to_int (round_double (of_int screenWidth * round_double 0.75)) = 720"
  "float_to_int minimumFruitStrafe = - 5" "float_to_int maximumFruitStrafe = 5"
  "float_to_int minimumFruitThrust = 5" "float_to_int maximumFruitThrust = 20"
  by code_simp+

section \<open>Loops over the pools\<close>

lemma for_loop_0: "for_loop 0 body s = s"
  by (simp add: for_loop_def)

lemma for_loop_Suc: "for_loop (Suc n) body s = body n (for_loop n body s)"
  by (simp add: for_loop_def)

lemma disable_fruits_loop:
  "n \<le> length (fruits s) \<Longrightarrow>
   for_loop n disable_fruit s =
     s\<lparr>fruits := map (\<lambda>f. f\<lparr>enabled := False\<rparr>) (take n (fruits s)) @ drop n (fruits s)\<rparr>"
proof (induction n)
  case 0
  show ?case by (simp add: for_loop_0)
next
  case (Suc n)
  then have n: "n < length (fruits s)" by simp
  let ?d = "\<lambda>f::Fruit. f\<lparr>enabled := False\<rparr>"
  have "for_loop (Suc n) disable_fruit s =
        disable_fruit n (s\<lparr>fruits := map ?d (take n (fruits s)) @ drop n (fruits s)\<rparr>)"
    using Suc by (simp add: for_loop_Suc)
  also have "\<dots> = s\<lparr>fruits := map ?d (take (Suc n) (fruits s)) @ drop (Suc n) (fruits s)\<rparr>"
    using n
    by (simp add: disable_fruit_def take_Suc_conv_app_nth nth_append list_update_append
        Cons_nth_drop_Suc [symmetric])
  finally show ?case .
qed

lemma disable_particles_loop:
  "n \<le> length (particles s) \<Longrightarrow>
   for_loop n disable_particle s =
     s\<lparr>particles :=
        map (\<lambda>p. p\<lparr>penabled := False\<rparr>) (take n (particles s)) @ drop n (particles s)\<rparr>"
proof (induction n)
  case 0
  show ?case by (simp add: for_loop_0)
next
  case (Suc n)
  then have n: "n < length (particles s)" by simp
  let ?d = "\<lambda>p::Particle. p\<lparr>penabled := False\<rparr>"
  have "for_loop (Suc n) disable_particle s =
        disable_particle n
          (s\<lparr>particles := map ?d (take n (particles s)) @ drop n (particles s)\<rparr>)"
    using Suc by (simp add: for_loop_Suc)
  also have "\<dots> =
        s\<lparr>particles := map ?d (take (Suc n) (particles s)) @ drop (Suc n) (particles s)\<rparr>"
    using n
    by (simp add: disable_particle_def take_Suc_conv_app_nth nth_append list_update_append
        Cons_nth_drop_Suc [symmetric])
  finally show ?case .
qed

lemma FromPlayToLoseState_eq:
  assumes "pools_sized s"
  shows "FromPlayToLoseState s =
     s\<lparr>state := loseState,
       fruits := map (\<lambda>f. f\<lparr>enabled := False\<rparr>) (fruits s),
       particles := map (\<lambda>p. p\<lparr>penabled := False\<rparr>) (particles s),
       spawnElapsed := 0, totalElapsed := 0, slashing := False\<rparr>"
  using assms
  by (simp add: FromPlayToLoseState_def pools_sized_def Let_def
      disable_fruits_loop disable_particles_loop)

lemma initial_game_eq: "initial_game = static_storage"
  by (simp add: initial_game_def Initialize_def static_storage_def Let_def disable_fruits_loop
      disable_particles_loop)

lemma example_game_sized: "pools_sized (example_game t)"
  by (simp add: example_game_def initial_game_eq static_storage_def pools_sized_def)

section \<open>Scoring\<close>

lemma sint_add_no_overflow:
  fixes a b :: int32
  assumes "- (2 ^ 31) \<le> sint a + sint b" and "sint a + sint b < 2 ^ 31"
  shows "sint (a + b) = sint a + sint b"
proof -
  have "sint (a + b) = signed_take_bit 31 (sint a + sint b)"
    by (simp add: sint_word_add)
  also have "\<dots> = sint a + sint b"
    using assms by (rule signed_take_bit_int_eq_self)
  finally show ?thesis .
qed

lemma sint_lower: "- 2147483648 \<le> sint (a :: int32)"
  using sint_range_size [of a] by (simp add: word_size)

lemma sint_plus_1: "sint (a :: int32) < 2147483647 \<Longrightarrow> sint (a + 1) = sint a + 1"
  using sint_add_no_overflow [of a 1] sint_lower [of a] by simp

lemma sint_plus_3: "sint (a :: int32) < 2147483645 \<Longrightarrow> sint (a + 3) = sint a + 3"
  using sint_add_no_overflow [of a 3] sint_lower [of a] by simp

lemma sint_plus_9: "sint (a :: int32) < 2147483639 \<Longrightarrow> sint (a + 9) = sint a + 9"
  using sint_add_no_overflow [of a 9] sint_lower [of a] by simp

lemma pools_sized_disable_fruit: "pools_sized s \<Longrightarrow> pools_sized (disable_fruit i s)"
  by (simp add: pools_sized_def disable_fruit_def)

lemma SlashFruit_fruit:
  assumes "i < length (fruits s)" and "type (fruits s ! i) \<noteq> donutType"
  shows "SlashFruit i s =
     (disable_fruit i s)
       \<lparr>fruitsSlashed := fruitsSlashed s + 1,
        score := score s +
          (if type (fruits s ! i) = appleType then 1
           else if type (fruits s ! i) = bananaType then 3 else 9)\<rparr>"
  using assms
  by (cases "type (fruits s ! i)")
     (simp_all add: SlashFruit_def disable_fruit_def Let_def appleScore_def bananaScore_def
        cherryScore_def)

lemma SlashFruit_donut:
  assumes "i < length (fruits s)" and "type (fruits s ! i) = donutType"
  shows "SlashFruit i s = FromPlayToLoseState (disable_fruit i s)"
  using assms by (simp add: SlashFruit_def disable_fruit_def Let_def)

lemma update_fruit_hit:
  assumes "enabled (fruits s ! i)"
    and "\<not> yc (position (fruits s ! i)) > float_of_int screenHeight"
    and "slashing s"
    and "CheckCollisionPointCircle (GetMousePosition inp)
           \<lparr>xc = xc (position (fruits s ! i)) + Finite 32,
            yc = yc (position (fruits s ! i)) + Finite 32\<rparr> (Finite 32)"
  shows "update_fruit inp i s = SlashFruit i s"
  using assms by (simp add: update_fruit_def fruitRadius_value)

text \<open>
  C1. In the loop over the fruits of the Play-state update, an enabled fruit that is on
  screen and hit by the slash (the slash is active and the pointer is within the circle
  of radius 32 around the fruit's position offset by (32, 32), the offset added in
  \<open>float\<close>) is resolved as follows.
  Apple: \<open>score\<close> grows by exactly 1 and \<open>fruitsSlashed\<close> by 1. Banana: \<open>score\<close> grows by
  exactly 3 and \<open>fruitsSlashed\<close> by 1. Cherry: \<open>score\<close> grows by exactly 9 and
  \<open>fruitsSlashed\<close> by 1. Donut: \<open>score\<close> and \<open>fruitsSlashed\<close> are unchanged and the state
  becomes Lose. In every case the fruit's \<open>enabled\<close> flag is false afterwards. The sums
  are those of the 32-bit counters; read as signed numbers they are the exact integer
  sums as long as the counter does not pass \<open>INT_MAX\<close>.
\<close>

theorem slash_hit_scoring:
  assumes "pools_sized s" and "i < MAX_FRUIT_COUNT"
    and "enabled (fruits s ! i)"
    and "\<not> yc (position (fruits s ! i)) > float_of_int screenHeight"
    and "slashing s"
    and "CheckCollisionPointCircle (GetMousePosition inp)
           \<lparr>xc = xc (position (fruits s ! i)) + Finite 32,
            yc = yc (position (fruits s ! i)) + Finite 32\<rparr> (Finite 32)"
  shows "(type (fruits s ! i) = appleType \<longrightarrow>
            score (update_fruit inp i s) = score s + 1 \<and>
            fruitsSlashed (update_fruit inp i s) = fruitsSlashed s + 1 \<and>
            (sint (score s) < 2147483647 \<longrightarrow>
               sint (score (update_fruit inp i s)) = sint (score s) + 1) \<and>
            state (update_fruit inp i s) = state s) \<and>
         (type (fruits s ! i) = bananaType \<longrightarrow>
            score (update_fruit inp i s) = score s + 3 \<and>
            fruitsSlashed (update_fruit inp i s) = fruitsSlashed s + 1 \<and>
            (sint (score s) < 2147483645 \<longrightarrow>
               sint (score (update_fruit inp i s)) = sint (score s) + 3) \<and>
            state (update_fruit inp i s) = state s) \<and>
         (type (fruits s ! i) = cherryType \<longrightarrow>
            score (update_fruit inp i s) = score s + 9 \<and>
            fruitsSlashed (update_fruit inp i s) = fruitsSlashed s + 1 \<and>
            (sint (score s) < 2147483639 \<longrightarrow>
               sint (score (update_fruit inp i s)) = sint (score s) + 9) \<and>
            state (update_fruit inp i s) = state s) \<and>
         (type (fruits s ! i) \<noteq> donutType \<and> sint (fruitsSlashed s) < 2147483647 \<longrightarrow>
            sint (fruitsSlashed (update_fruit inp i s)) = sint (fruitsSlashed s) + 1) \<and>
         (type (fruits s ! i) = donutType \<longrightarrow>
            score (update_fruit inp i s) = score s \<and>
            fruitsSlashed (update_fruit inp i s) = fruitsSlashed s \<and>
            state (update_fruit inp i s) = loseState) \<and>
         \<not> enabled (fruits (update_fruit inp i s) ! i)"
proof -
  have i: "i < length (fruits s)"
    using assms(1,2) by (simp add: pools_sized_def)
  have upd: "update_fruit inp i s = SlashFruit i s"
    using assms(3-6) by (rule update_fruit_hit)
  show ?thesis
  proof (cases "type (fruits s ! i) = donutType")
    case True
    have "SlashFruit i s = FromPlayToLoseState (disable_fruit i s)"
      using i True by (rule SlashFruit_donut)
    then show ?thesis
      using True i FromPlayToLoseState_eq [OF pools_sized_disable_fruit [OF assms(1)], of i]
      by (simp add: upd disable_fruit_def)
  next
    case False
    then show ?thesis
      using i
      by (simp add: upd SlashFruit_fruit disable_fruit_def sint_plus_1 sint_plus_3 sint_plus_9)
  qed
qed

theorem slash_hit_scoring_witness:
  "pools_sized (example_game cherryType) \<and> 0 < MAX_FRUIT_COUNT \<and>
   enabled (fruits (example_game cherryType) ! 0) \<and>
   \<not> yc (position (fruits (example_game cherryType) ! 0)) > float_of_int screenHeight \<and>
   slashing (example_game cherryType) \<and>
   CheckCollisionPointCircle (GetMousePosition example_input)
     \<lparr>xc = Finite 100 + Finite 32, yc = Finite 100 + Finite 32\<rparr> (Finite 32) \<and>
   score (update_fruit example_input 0 (example_game cherryType)) = 9 \<and>
   sint (score (update_fruit example_input 0 (example_game cherryType))) = 9 \<and>
   fruitsSlashed (update_fruit example_input 0 (example_game cherryType)) = 1 \<and>
   \<not> enabled (fruits (update_fruit example_input 0 (example_game cherryType)) ! 0)"
proof -
  have c: "CheckCollisionPointCircle (GetMousePosition example_input)
     \<lparr>xc = Finite 100 + Finite 32, yc = Finite 100 + Finite 32\<rparr> (Finite 32)"
    by code_simp
  have v: "fruits (example_game cherryType) ! 0 = example_fruit cherryType"
    "slashing (example_game cherryType)" "0 < MAX_FRUIT_COUNT"
    "score (example_game cherryType) = 0" "fruitsSlashed (example_game cherryType) = 0"
    by (simp_all add: example_game_def initial_game_eq static_storage_def MAX_FRUIT_COUNT_def)
  have e: "enabled (example_fruit cherryType)" "type (example_fruit cherryType) = cherryType"
    "position (example_fruit cherryType) = \<lparr>xc = Finite 100, yc = Finite 100\<rparr>"
    by (simp_all add: example_fruit_def)
  have h: "\<not> yc (position (fruits (example_game cherryType) ! 0)) > float_of_int screenHeight"
    by (simp add: v e screenHeight_value)
  show ?thesis
    using slash_hit_scoring [of "example_game cherryType" 0 example_input] c h
    by (simp add: example_game_sized v e)
qed

section \<open>State transitions\<close>

text \<open>
  C2. The Play-to-Lose transition sets the state to Lose, sets \<open>enabled\<close> to false in
  all 48 fruit slots and all 16 particle slots (no enabled fruit or particle remains),
  resets \<open>spawnElapsed\<close> and \<open>totalElapsed\<close> to 0 and \<open>slashing\<close> to false, and leaves
  \<open>score\<close> and \<open>fruitsSlashed\<close> unchanged.
\<close>

theorem play_to_lose_effect:
  assumes "pools_sized s"
  shows "state (FromPlayToLoseState s) = loseState \<and>
         length (fruits (FromPlayToLoseState s)) = 48 \<and>
         (\<forall>i<48. \<not> enabled (fruits (FromPlayToLoseState s) ! i)) \<and>
         length (particles (FromPlayToLoseState s)) = 16 \<and>
         (\<forall>i<16. \<not> penabled (particles (FromPlayToLoseState s) ! i)) \<and>
         filter enabled (fruits (FromPlayToLoseState s)) = [] \<and>
         filter penabled (particles (FromPlayToLoseState s)) = [] \<and>
         spawnElapsed (FromPlayToLoseState s) = 0 \<and>
         totalElapsed (FromPlayToLoseState s) = 0 \<and>
         slashing (FromPlayToLoseState s) = False \<and>
         score (FromPlayToLoseState s) = score s \<and>
         fruitsSlashed (FromPlayToLoseState s) = fruitsSlashed s"
  using assms
  by (simp add: FromPlayToLoseState_eq [OF assms] pools_sized_def MAX_FRUIT_COUNT_def
      MAX_PARTICLE_COUNT_def filter_empty_conv)

theorem play_to_lose_effect_witness:
  "pools_sized (example_game donutType) \<and>
   enabled (fruits (example_game donutType) ! 0) \<and>
   slashing (example_game donutType) \<and>
   state (FromPlayToLoseState (example_game donutType)) = loseState \<and>
   \<not> enabled (fruits (FromPlayToLoseState (example_game donutType)) ! 0) \<and>
   filter enabled (fruits (FromPlayToLoseState (example_game donutType))) = [] \<and>
   \<not> slashing (FromPlayToLoseState (example_game donutType))"
  using play_to_lose_effect [of "example_game donutType"]
  by (simp add: example_game_sized)
     (simp add: example_game_def example_fruit_def initial_game_eq static_storage_def
        MAX_FRUIT_COUNT_def)

text \<open>
  C8. In the Lose state a press of the primary button runs the Lose-to-Start transition
  (and without a press nothing changes): the state becomes Start, \<open>score\<close> and
  \<open>fruitsSlashed\<close> become zero, and every other field and both pools are as before.
\<close>

theorem lose_to_start_effect:
  assumes "state s = loseState"
  shows "Update inp s = Some (if IsMouseButtonPressed inp then FromLoseToStartState s else s) \<and>
         state (FromLoseToStartState s) = startState \<and>
         score (FromLoseToStartState s) = 0 \<and>
         fruitsSlashed (FromLoseToStartState s) = 0 \<and>
         fruits (FromLoseToStartState s) = fruits s \<and>
         particles (FromLoseToStartState s) = particles s \<and>
         nextFruitIndex (FromLoseToStartState s) = nextFruitIndex s \<and>
         nextParticleIndex (FromLoseToStartState s) = nextParticleIndex s \<and>
         spawnElapsed (FromLoseToStartState s) = spawnElapsed s \<and>
         totalElapsed (FromLoseToStartState s) = totalElapsed s \<and>
         slashing (FromLoseToStartState s) = slashing s"
  using assms by (simp add: Update_def UpdateLoseState_def FromLoseToStartState_def)

theorem lose_to_start_effect_witness:
  "state example_lost = loseState \<and>
   IsMouseButtonPressed (example_input\<lparr>IsMouseButtonPressed := True\<rparr>) \<and>
   score example_lost = 13 \<and>
   Update (example_input\<lparr>IsMouseButtonPressed := True\<rparr>) example_lost =
     Some (FromLoseToStartState example_lost) \<and>
   state (FromLoseToStartState example_lost) = startState \<and>
   score (FromLoseToStartState example_lost) = 0"
  using lose_to_start_effect [of example_lost "example_input\<lparr>IsMouseButtonPressed := True\<rparr>"]
  by (simp add: example_lost_def FromPlayToLoseState_eq example_game_sized)

section \<open>Spawning\<close>

lemma next_index_mod:
  assumes "0 \<le> n"
  shows "(n + 1) smod int m = (n + 1) mod int m"
  using assms by (simp add: smod_mod_positive)

lemma SpawnFruit_Some:
  assumes "0 \<le> nextFruitIndex s" and "nextFruitIndex s < int (length (fruits s))"
  shows "SpawnFruit inp s =
     Some (s\<lparr>fruits := (fruits s)[nat (nextFruitIndex s) :=
                (assign_type (GetRandomValue inp 1 100) (fruits s ! nat (nextFruitIndex s)))
                  \<lparr>position := \<lparr>xc = float_of_int (GetRandomValue inp 240 720),
                                yc = float_of_int screenHeight\<rparr>,
                   velocity := \<lparr>xc = float_of_int (GetRandomValue inp (- 5) 5),
                                yc = float_of_int (- GetRandomValue inp 5 20)\<rparr>,
                   enabled := True\<rparr>],
              nextFruitIndex := (nextFruitIndex s + 1) mod int MAX_FRUIT_COUNT\<rparr>)"
  unfolding SpawnFruit_def spawn_bounds_value
  using assms by (simp add: Let_def next_index_mod)

lemma assign_type_in_range:
  assumes "d \<le> 100"
  shows "type (assign_type d f) =
     (if d \<le> 50 then appleType else if d \<le> 75 then bananaType
      else if d \<le> 85 then cherryType else donutType)"
  using assms
  by (simp add: assign_type_def appleSpawnCeiling_def bananaSpawnCeiling_def
      cherrySpawnCeiling_def donutSpawnCeiling_def)

lemma draws_apple: "{d \<in> {1..100}. type (assign_type d f) = appleType} = {1..50}"
  by (auto simp: assign_type_in_range split: if_splits)

lemma draws_banana: "{d \<in> {1..100}. type (assign_type d f) = bananaType} = {51..75}"
  by (auto simp: assign_type_in_range split: if_splits)

lemma draws_cherry: "{d \<in> {1..100}. type (assign_type d f) = cherryType} = {76..85}"
  by (auto simp: assign_type_in_range split: if_splits)

lemma draws_donut: "{d \<in> {1..100}. type (assign_type d f) = donutType} = {86..100}"
  by (auto simp: assign_type_in_range split: if_splits)

text \<open>
  C5. With the draw \<open>d = GetRandomValue(1, 100)\<close> in [1, 100], \<open>SpawnFruit\<close> gives the
  slot at the write cursor the type Apple when \<open>d \<le> 50\<close>, Banana when \<open>50 < d \<le> 75\<close>,
  Cherry when \<open>75 < d \<le> 85\<close> and Donut when \<open>85 < d \<le> 100\<close>. Of the 100 draws, 50
  select Apple, 25 Banana, 10 Cherry and 15 Donut: with a uniform draw the types have
  probability 50%, 25%, 10% and 15%.
\<close>

theorem spawn_type_by_draw:
  assumes "0 \<le> nextFruitIndex s" and "nextFruitIndex s < int (length (fruits s))"
    and "1 \<le> GetRandomValue inp 1 100" and "GetRandomValue inp 1 100 \<le> 100"
  shows "(\<exists>s'. SpawnFruit inp s = Some s' \<and>
            type (fruits s' ! nat (nextFruitIndex s)) =
              (if GetRandomValue inp 1 100 \<le> 50 then appleType
               else if GetRandomValue inp 1 100 \<le> 75 then bananaType
               else if GetRandomValue inp 1 100 \<le> 85 then cherryType
               else donutType)) \<and>
         card {d \<in> {1..100}. type (assign_type d f) = appleType} = 50 \<and>
         card {d \<in> {1..100}. type (assign_type d f) = bananaType} = 25 \<and>
         card {d \<in> {1..100}. type (assign_type d f) = cherryType} = 10 \<and>
         card {d \<in> {1..100}. type (assign_type d f) = donutType} = 15 \<and>
         card {1..100::int} = 100"
proof -
  have spawn: "\<exists>s'. SpawnFruit inp s = Some s' \<and>
            type (fruits s' ! nat (nextFruitIndex s)) =
              (if GetRandomValue inp 1 100 \<le> 50 then appleType
               else if GetRandomValue inp 1 100 \<le> 75 then bananaType
               else if GetRandomValue inp 1 100 \<le> 85 then cherryType
               else donutType)"
    using assms by (simp add: SpawnFruit_Some [OF assms(1,2)] assign_type_in_range)
  have apple: "card {d \<in> {1..100}. type (assign_type d f) = appleType} = 50"
    by (simp only: draws_apple) simp
  have banana: "card {d \<in> {1..100}. type (assign_type d f) = bananaType} = 25"
    by (simp only: draws_banana) simp
  have cherry: "card {d \<in> {1..100}. type (assign_type d f) = cherryType} = 10"
    by (simp only: draws_cherry) simp
  have donut: "card {d \<in> {1..100}. type (assign_type d f) = donutType} = 15"
    by (simp only: draws_donut) simp
  have "card {1..100::int} = 100"
    by simp
  with spawn apple banana cherry donut show ?thesis
    by (intro conjI)
qed

theorem spawn_type_by_draw_witness:
  "0 \<le> nextFruitIndex initial_game \<and>
   nextFruitIndex initial_game < int (length (fruits initial_game)) \<and>
   GetRandomValue example_input 1 100 = 1 \<and>
   (\<exists>s'. SpawnFruit example_input initial_game = Some s' \<and> type (fruits s' ! 0) = appleType)"
  using spawn_type_by_draw [of initial_game example_input]
  by (simp add: initial_game_eq static_storage_def example_input_def MAX_FRUIT_COUNT_def)

text \<open>
  C6. \<open>SpawnFruit\<close> enables the slot at the write cursor and initialises it from the
  generator's draws: the horizontal position is the draw from [240, 720], the middle
  half of the screen width; the vertical position is the bottom edge \<open>screenHeight\<close>; the
  horizontal velocity is the draw from [-5, 5]; the vertical velocity is the negated draw
  from [5, 20] and so lies in [-20, -5]. The conversions to \<open>float\<close> are exact. The
  cursor then advances by one modulo 48, and no other slot changes. Each component is a
  draw or its negation, so it is distributed as the generator distributes the draw.
\<close>

theorem spawn_initialises_slot:
  assumes "pools_sized s"
    and "0 \<le> nextFruitIndex s" and "nextFruitIndex s < int MAX_FRUIT_COUNT"
    and "240 \<le> GetRandomValue inp 240 720" and "GetRandomValue inp 240 720 \<le> 720"
    and "- 5 \<le> GetRandomValue inp (- 5) 5" and "GetRandomValue inp (- 5) 5 \<le> 5"
    and "5 \<le> GetRandomValue inp 5 20" and "GetRandomValue inp 5 20 \<le> 20"
  shows "\<exists>s'. SpawnFruit inp s = Some s' \<and>
           enabled (fruits s' ! nat (nextFruitIndex s)) \<and>
           xc (position (fruits s' ! nat (nextFruitIndex s))) =
             Finite (of_int (GetRandomValue inp 240 720)) \<and>
           Finite (of_int screenWidth * 0.25)
             \<le> xc (position (fruits s' ! nat (nextFruitIndex s))) \<and>
           xc (position (fruits s' ! nat (nextFruitIndex s)))
             \<le> Finite (of_int screenWidth * 0.75) \<and>
           yc (position (fruits s' ! nat (nextFruitIndex s))) = Finite (of_int screenHeight) \<and>
           xc (velocity (fruits s' ! nat (nextFruitIndex s))) =
             Finite (of_int (GetRandomValue inp (- 5) 5)) \<and>
           Finite (- 5) \<le> xc (velocity (fruits s' ! nat (nextFruitIndex s))) \<and>
           xc (velocity (fruits s' ! nat (nextFruitIndex s))) \<le> Finite 5 \<and>
           yc (velocity (fruits s' ! nat (nextFruitIndex s))) =
             Finite (- of_int (GetRandomValue inp 5 20)) \<and>
           Finite (- 20) \<le> yc (velocity (fruits s' ! nat (nextFruitIndex s))) \<and>
           yc (velocity (fruits s' ! nat (nextFruitIndex s))) \<le> Finite (- 5) \<and>
           nextFruitIndex s' = (nextFruitIndex s + 1) mod 48 \<and>
           length (fruits s') = 48 \<and>
           (\<forall>j<48. j \<noteq> nat (nextFruitIndex s) \<longrightarrow> fruits s' ! j = fruits s ! j)"
proof -
  have len: "length (fruits s) = 48"
    using assms(1) by (simp add: pools_sized_def MAX_FRUIT_COUNT_def)
  have n: "nextFruitIndex s < int (length (fruits s))" "nat (nextFruitIndex s) < length (fruits s)"
    using assms(2,3) len by (simp_all add: MAX_FRUIT_COUNT_def)
  have x: "float_of_int (GetRandomValue inp 240 720) = Finite (of_int (GetRandomValue inp 240 720))"
    using assms(4,5) by (intro float_of_int_exact) simp
  have vx: "float_of_int (GetRandomValue inp (- 5) 5) = Finite (of_int (GetRandomValue inp (- 5) 5))"
    using assms(6,7) by (intro float_of_int_exact) simp
  have "float_of_int (- GetRandomValue inp 5 20) = Finite (of_int (- GetRandomValue inp 5 20))"
    using assms(8,9) by (intro float_of_int_exact) simp
  then have vy: "float_of_int (- GetRandomValue inp 5 20) = Finite (- of_int (GetRandomValue inp 5 20))"
    by simp
  have y: "float_of_int screenHeight = Finite (of_int screenHeight)"
    using screenHeight_value by (simp add: screenHeight_def)
  show ?thesis
    using assms(4-9) n len
    by (simp add: SpawnFruit_Some [OF assms(2) n(1)] x vx vy y screenWidth_def
        MAX_FRUIT_COUNT_def)
qed

theorem spawn_initialises_slot_witness:
  "pools_sized initial_game \<and> nextFruitIndex initial_game = 0 \<and>
   GetRandomValue example_input 240 720 = 240 \<and>
   GetRandomValue example_input (- 5) 5 = - 5 \<and>
   GetRandomValue example_input 5 20 = 5 \<and>
   (\<exists>s'. SpawnFruit example_input initial_game = Some s' \<and>
      enabled (fruits s' ! 0) \<and>
      position (fruits s' ! 0) = \<lparr>xc = Finite 240, yc = Finite 540\<rparr> \<and>
      velocity (fruits s' ! 0) = \<lparr>xc = Finite (- 5), yc = Finite (- 5)\<rparr> \<and>
      nextFruitIndex s' = 1)"
proof -
  have v: "pools_sized initial_game" "nextFruitIndex initial_game = 0"
    "GetRandomValue example_input 240 720 = 240" "GetRandomValue example_input (- 5) 5 = - 5"
    "GetRandomValue example_input 5 20 = 5"
    by (simp_all add: initial_game_eq static_storage_def example_input_def pools_sized_def)
  from spawn_initialises_slot [of initial_game example_input]
  obtain s' where s': "SpawnFruit example_input initial_game = Some s'"
    "enabled (fruits s' ! 0)"
    "xc (position (fruits s' ! 0)) = Finite 240" "yc (position (fruits s' ! 0)) = Finite 540"
    "xc (velocity (fruits s' ! 0)) = Finite (- 5)" "yc (velocity (fruits s' ! 0)) = Finite (- 5)"
    "nextFruitIndex s' = 1"
    by (auto simp: v MAX_FRUIT_COUNT_def screenHeight_def)
  have "position (fruits s' ! 0) = \<lparr>xc = Finite 240, yc = Finite 540\<rparr>"
    "velocity (fruits s' ! 0) = \<lparr>xc = Finite (- 5), yc = Finite (- 5)\<rparr>"
    using s'(3-6) by (cases "position (fruits s' ! 0)"; cases "velocity (fruits s' ! 0)"; simp)+
  with s' v show ?thesis by auto
qed

section \<open>The particle trail\<close>

lemma new_particle_eq:
  "p\<lparr>pposition := m, elapsed := 0, penabled := True\<rparr> =
   \<lparr>pposition = m, elapsed = 0, penabled = True\<rparr>"
  by (cases p) simp

lemma still_enabled: "penabled p \<Longrightarrow> p\<lparr>elapsed := e, penabled := True\<rparr> = p\<lparr>elapsed := e\<rparr>"
  by (cases p) simp

lemma trail_step_Some:
  assumes "0 \<le> nextParticleIndex s" and "nextParticleIndex s < int (length (particles s))"
  shows "trail_step inp s =
     Some (if slashing s
           then s\<lparr>particles := (particles s)[nat (nextParticleIndex s) :=
                      \<lparr>pposition = GetMousePosition inp, elapsed = 0, penabled = True\<rparr>],
                   nextParticleIndex := (nextParticleIndex s + 1) mod int MAX_PARTICLE_COUNT\<rparr>
           else s)"
  using assms
  by (simp add: trail_step_def append_particle_def Let_def next_index_mod new_particle_eq)

lemma age_particle_eq:
  "i < length (particles s) \<Longrightarrow>
   age_particle inp i s =
     s\<lparr>particles := (particles s)[i :=
        (if penabled (particles s ! i)
         then (particles s ! i)
                \<lparr>elapsed := elapsed (particles s ! i) + GetFrameTime inp,
                 penabled := \<not> elapsed (particles s ! i) + GetFrameTime inp
                               > particleMaximumElapsed\<rparr>
         else particles s ! i)]\<rparr>"
proof (cases "penabled (particles s ! i)")
  case False
  then show ?thesis by (simp add: age_particle_def)
next
  case True
  then show ?thesis by (simp add: age_particle_def Let_def still_enabled)
qed

lemma age_particles_loop:
  "n \<le> length (particles s) \<Longrightarrow>
   for_loop n (age_particle inp) s =
     s\<lparr>particles :=
        map (\<lambda>p. if penabled p
                 then p\<lparr>elapsed := elapsed p + GetFrameTime inp,
                        penabled := \<not> elapsed p + GetFrameTime inp > particleMaximumElapsed\<rparr>
                 else p) (take n (particles s)) @ drop n (particles s)\<rparr>"
proof (induction n)
  case 0
  show ?case by (simp add: for_loop_0)
next
  case (Suc n)
  then have n: "n < length (particles s)" by simp
  let ?a = "\<lambda>p. if penabled p
                 then p\<lparr>elapsed := elapsed p + GetFrameTime inp,
                        penabled := \<not> elapsed p + GetFrameTime inp > particleMaximumElapsed\<rparr>
                 else p"
  have "for_loop (Suc n) (age_particle inp) s =
        age_particle inp n
          (s\<lparr>particles := map ?a (take n (particles s)) @ drop n (particles s)\<rparr>)"
    using Suc by (simp add: for_loop_Suc)
  also have "\<dots> =
        s\<lparr>particles := map ?a (take (Suc n) (particles s)) @ drop (Suc n) (particles s)\<rparr>"
    using n
    by (simp add: age_particle_eq take_Suc_conv_app_nth nth_append list_update_append
        Cons_nth_drop_Suc [symmetric])
  finally show ?case .
qed

section \<open>The loop over the fruits\<close>

lemma update_fruit_cleared:
  assumes "pools_cleared s" and "i < length (fruits s)"
  shows "update_fruit inp i s = s"
  using assms by (simp add: update_fruit_def pools_cleared_def list_all_length)

lemma pools_cleared_lose:
  assumes "pools_sized s"
  shows "pools_cleared (FromPlayToLoseState s)"
  by (simp add: FromPlayToLoseState_eq [OF assms] pools_cleared_def list_all_iff)

lemma pools_sized_lose:
  assumes "pools_sized s"
  shows "pools_sized (FromPlayToLoseState s)"
  using assms by (simp add: FromPlayToLoseState_eq [OF assms] pools_sized_def)

lemma disable_fruit_fields:
  "state (disable_fruit i s) = state s"
  "particles (disable_fruit i s) = particles s"
  "nextFruitIndex (disable_fruit i s) = nextFruitIndex s"
  "nextParticleIndex (disable_fruit i s) = nextParticleIndex s"
  "score (disable_fruit i s) = score s"
  "fruitsSlashed (disable_fruit i s) = fruitsSlashed s"
  "spawnElapsed (disable_fruit i s) = spawnElapsed s"
  "totalElapsed (disable_fruit i s) = totalElapsed s"
  "slashing (disable_fruit i s) = slashing s"
  by (simp_all add: disable_fruit_def)

lemma update_fruit_frame:
  assumes "pools_sized s" and "i < MAX_FRUIT_COUNT"
  shows "pools_sized (update_fruit inp i s) \<and>
         nextFruitIndex (update_fruit inp i s) = nextFruitIndex s \<and>
         nextParticleIndex (update_fruit inp i s) = nextParticleIndex s \<and>
         (state (update_fruit inp i s) = state s \<and>
          particles (update_fruit inp i s) = particles s \<and>
          spawnElapsed (update_fruit inp i s) = spawnElapsed s \<and>
          totalElapsed (update_fruit inp i s) = totalElapsed s \<and>
          slashing (update_fruit inp i s) = slashing s
          \<or>
          state (update_fruit inp i s) = loseState \<and>
          pools_cleared (update_fruit inp i s) \<and>
          spawnElapsed (update_fruit inp i s) = 0 \<and>
          totalElapsed (update_fruit inp i s) = 0 \<and>
          \<not> slashing (update_fruit inp i s))"
proof -
  have i: "i < length (fruits s)"
    using assms by (simp add: pools_sized_def)
  have d: "pools_sized (disable_fruit i s)"
    using assms(1) by (rule pools_sized_disable_fruit)
  have "update_fruit inp i s = s \<or> update_fruit inp i s = disable_fruit i s \<or>
        update_fruit inp i s = SlashFruit i s \<or>
        update_fruit inp i s = s\<lparr>fruits := (fruits s)[i := move_fruit (fruits s ! i)]\<rparr>"
    by (simp add: update_fruit_def)
  then consider (off) "update_fruit inp i s = s"
    | (missed) "update_fruit inp i s = disable_fruit i s"
    | (slashed) "update_fruit inp i s = SlashFruit i s" "type (fruits s ! i) \<noteq> donutType"
    | (bomb) "update_fruit inp i s = SlashFruit i s" "type (fruits s ! i) = donutType"
    | (moved) "update_fruit inp i s = s\<lparr>fruits := (fruits s)[i := move_fruit (fruits s ! i)]\<rparr>"
    by blast
  then show ?thesis
  proof cases
    case off
    then show ?thesis using assms by simp
  next
    case missed
    then show ?thesis using d by (simp add: disable_fruit_def)
  next
    case slashed
    then show ?thesis
      using d i by (simp add: SlashFruit_fruit disable_fruit_def pools_sized_def)
  next
    case bomb
    then have "update_fruit inp i s = FromPlayToLoseState (disable_fruit i s)"
      using i by (simp add: SlashFruit_donut)
    moreover have "pools_cleared (FromPlayToLoseState (disable_fruit i s))"
      using d by (rule pools_cleared_lose)
    moreover have "pools_sized (FromPlayToLoseState (disable_fruit i s))"
      using d by (rule pools_sized_lose)
    ultimately show ?thesis
      by (simp add: FromPlayToLoseState_eq [OF d] disable_fruit_fields)
  next
    case moved
    then show ?thesis using assms(1) by (simp add: pools_sized_def)
  qed
qed

lemma fruit_loop_frame:
  assumes "pools_sized s" and "n \<le> MAX_FRUIT_COUNT"
  shows "pools_sized (for_loop n (update_fruit inp) s) \<and>
         nextFruitIndex (for_loop n (update_fruit inp) s) = nextFruitIndex s \<and>
         nextParticleIndex (for_loop n (update_fruit inp) s) = nextParticleIndex s \<and>
         (state (for_loop n (update_fruit inp) s) = state s \<and>
          particles (for_loop n (update_fruit inp) s) = particles s \<and>
          spawnElapsed (for_loop n (update_fruit inp) s) = spawnElapsed s \<and>
          totalElapsed (for_loop n (update_fruit inp) s) = totalElapsed s \<and>
          slashing (for_loop n (update_fruit inp) s) = slashing s
          \<or>
          state (for_loop n (update_fruit inp) s) = loseState \<and>
          pools_cleared (for_loop n (update_fruit inp) s) \<and>
          spawnElapsed (for_loop n (update_fruit inp) s) = 0 \<and>
          totalElapsed (for_loop n (update_fruit inp) s) = 0 \<and>
          \<not> slashing (for_loop n (update_fruit inp) s))"
  using assms(2)
proof (induction n)
  case 0
  then show ?case using assms(1) by (simp add: for_loop_0)
next
  case (Suc n)
  let ?t = "for_loop n (update_fruit inp) s"
  have n: "n < MAX_FRUIT_COUNT" and ih: "n \<le> MAX_FRUIT_COUNT"
    using Suc.prems by simp_all
  note IH = Suc.IH [OF ih]
  have sized: "pools_sized ?t"
    using IH by simp
  have len: "n < length (fruits ?t)"
    using sized n by (simp add: pools_sized_def)
  show ?case
  proof (cases "pools_cleared ?t \<and> state ?t = loseState")
    case True
    then have "update_fruit inp n ?t = ?t"
      using len by (simp add: update_fruit_cleared)
    then show ?thesis
      using IH True by (simp add: for_loop_Suc)
  next
    case False
    with IH have kept: "state ?t = state s" "particles ?t = particles s"
      "spawnElapsed ?t = spawnElapsed s" "totalElapsed ?t = totalElapsed s"
      "slashing ?t = slashing s"
      by auto
    show ?thesis
      using update_fruit_frame [OF sized n, of inp] IH kept
      by (simp add: for_loop_Suc)
  qed
qed

section \<open>The phases of UpdatePlayState\<close>

lemma slashing_read_slash_input:
  "slashing (read_slash_input inp s) =
     (IsMouseButtonPressed inp \<or> \<not> IsMouseButtonReleased inp \<and> slashing s)"
  by (simp add: read_slash_input_def)

lemma read_slash_input_eq:
  "read_slash_input inp s =
     s\<lparr>slashing := IsMouseButtonPressed inp \<or> \<not> IsMouseButtonReleased inp \<and> slashing s\<rparr>"
  by (simp add: read_slash_input_def)

lemma before_spawn:
  assumes "pools_sized s"
    and "0 \<le> nextParticleIndex s" and "nextParticleIndex s < int MAX_PARTICLE_COUNT"
  shows "\<exists>s3. trail_step inp (read_slash_input inp (accumulate_time inp s)) = Some s3 \<and>
     for_loop MAX_PARTICLE_COUNT (age_particle inp) s3 =
       s\<lparr>totalElapsed := totalElapsed s + GetFrameTime inp,
         spawnElapsed := spawnElapsed s + GetFrameTime inp,
         slashing := IsMouseButtonPressed inp \<or> \<not> IsMouseButtonReleased inp \<and> slashing s,
         particles :=
           map (\<lambda>p. if penabled p
                    then p\<lparr>elapsed := elapsed p + GetFrameTime inp,
                           penabled := \<not> elapsed p + GetFrameTime inp > particleMaximumElapsed\<rparr>
                    else p)
             (if IsMouseButtonPressed inp \<or> \<not> IsMouseButtonReleased inp \<and> slashing s
              then (particles s)[nat (nextParticleIndex s) :=
                     \<lparr>pposition = GetMousePosition inp, elapsed = 0, penabled = True\<rparr>]
              else particles s),
         nextParticleIndex :=
           (if IsMouseButtonPressed inp \<or> \<not> IsMouseButtonReleased inp \<and> slashing s
            then (nextParticleIndex s + 1) mod int MAX_PARTICLE_COUNT
            else nextParticleIndex s)\<rparr>"
proof -
  let ?s2 = "read_slash_input inp (accumulate_time inp s)"
  have len: "length (particles s) = MAX_PARTICLE_COUNT"
    using assms(1) by (simp add: pools_sized_def)
  have c: "0 \<le> nextParticleIndex ?s2" "nextParticleIndex ?s2 < int (length (particles ?s2))"
    using assms(2,3) len by (simp_all add: read_slash_input_eq accumulate_time_def)
  define s3 where "s3 =
     (if slashing ?s2
      then ?s2\<lparr>particles := (particles ?s2)[nat (nextParticleIndex ?s2) :=
                 \<lparr>pposition = GetMousePosition inp, elapsed = 0, penabled = True\<rparr>],
              nextParticleIndex := (nextParticleIndex ?s2 + 1) mod int MAX_PARTICLE_COUNT\<rparr>
      else ?s2)"
  have s3: "trail_step inp ?s2 = Some s3"
    unfolding s3_def by (rule trail_step_Some [OF c])
  have len3: "MAX_PARTICLE_COUNT \<le> length (particles s3)"
    using len by (simp add: s3_def read_slash_input_eq accumulate_time_def)
  have "for_loop MAX_PARTICLE_COUNT (age_particle inp) s3 =
     s3\<lparr>particles :=
        map (\<lambda>p. if penabled p
                 then p\<lparr>elapsed := elapsed p + GetFrameTime inp,
                        penabled := \<not> elapsed p + GetFrameTime inp > particleMaximumElapsed\<rparr>
                 else p) (particles s3)\<rparr>"
    using len3 len
    by (simp add: age_particles_loop [OF len3])
       (simp add: s3_def read_slash_input_eq accumulate_time_def)
  then show ?thesis
    using s3 by (simp add: s3_def read_slash_input_eq accumulate_time_def)
qed

lemma spawn_limit_max:
  "spawn_limit t = max (minimumSpawnRate - t / maximumElapsed) maximumSpawnRate"
  unfolding spawn_limit_def spawnElapsedThreshold_def max_def maximumSpawnRate_value
  by (cases "minimumSpawnRate - t / maximumElapsed") (auto simp: less_eq_float32_def)

lemma spawn_step_fields:
  assumes "0 \<le> nextFruitIndex u" and "nextFruitIndex u < int (length (fruits u))"
  shows "\<exists>u'. spawn_step inp u = Some u' \<and>
           state u' = state u \<and> particles u' = particles u \<and>
           nextParticleIndex u' = nextParticleIndex u \<and>
           score u' = score u \<and> fruitsSlashed u' = fruitsSlashed u \<and>
           totalElapsed u' = totalElapsed u \<and> slashing u' = slashing u \<and>
           length (fruits u') = length (fruits u) \<and>
           nextFruitIndex u' =
             (if spawnElapsed u > spawn_limit (totalElapsed u)
              then (nextFruitIndex u + 1) mod int MAX_FRUIT_COUNT else nextFruitIndex u) \<and>
           spawnElapsed u' =
             (if spawnElapsed u > spawn_limit (totalElapsed u) then 0 else spawnElapsed u) \<and>
           fruits u' =
             (if spawnElapsed u > spawn_limit (totalElapsed u)
              then fruits (the (SpawnFruit inp u)) else fruits u)"
proof (cases "spawnElapsed u > spawn_limit (totalElapsed u)")
  case True
  have c: "0 \<le> nextFruitIndex (u\<lparr>spawnElapsed := 0\<rparr>)"
    "nextFruitIndex (u\<lparr>spawnElapsed := 0\<rparr>) < int (length (fruits (u\<lparr>spawnElapsed := 0\<rparr>)))"
    using assms by simp_all
  show ?thesis
    using True by (simp add: spawn_step_def SpawnFruit_Some [OF c] SpawnFruit_Some [OF assms])
next
  case False
  then show ?thesis by (simp add: spawn_step_def)
qed

lemma UpdatePlayState_phases:
  assumes "pools_sized s" and "cursors_in_bounds s"
  obtains s4 s5 where
    "s4 = s\<lparr>totalElapsed := totalElapsed s + GetFrameTime inp,
         spawnElapsed := spawnElapsed s + GetFrameTime inp,
         slashing := IsMouseButtonPressed inp \<or> \<not> IsMouseButtonReleased inp \<and> slashing s,
         particles :=
           map (\<lambda>p. if penabled p
                    then p\<lparr>elapsed := elapsed p + GetFrameTime inp,
                           penabled := \<not> elapsed p + GetFrameTime inp > particleMaximumElapsed\<rparr>
                    else p)
             (if IsMouseButtonPressed inp \<or> \<not> IsMouseButtonReleased inp \<and> slashing s
              then (particles s)[nat (nextParticleIndex s) :=
                     \<lparr>pposition = GetMousePosition inp, elapsed = 0, penabled = True\<rparr>]
              else particles s),
         nextParticleIndex :=
           (if IsMouseButtonPressed inp \<or> \<not> IsMouseButtonReleased inp \<and> slashing s
            then (nextParticleIndex s + 1) mod int MAX_PARTICLE_COUNT
            else nextParticleIndex s)\<rparr>"
    and "spawn_step inp s4 = Some s5"
    and "UpdatePlayState inp s = Some (for_loop MAX_FRUIT_COUNT (update_fruit inp) s5)"
proof -
  have p: "0 \<le> nextParticleIndex s" "nextParticleIndex s < int MAX_PARTICLE_COUNT"
    using assms(2) by (simp_all add: cursors_in_bounds_def)
  from before_spawn [OF assms(1) p, of inp]
  obtain s3 s4 where s3: "trail_step inp (read_slash_input inp (accumulate_time inp s)) = Some s3"
    and s4: "s4 = for_loop MAX_PARTICLE_COUNT (age_particle inp) s3"
    and eq: "s4 = s\<lparr>totalElapsed := totalElapsed s + GetFrameTime inp,
         spawnElapsed := spawnElapsed s + GetFrameTime inp,
         slashing := IsMouseButtonPressed inp \<or> \<not> IsMouseButtonReleased inp \<and> slashing s,
         particles :=
           map (\<lambda>p. if penabled p
                    then p\<lparr>elapsed := elapsed p + GetFrameTime inp,
                           penabled := \<not> elapsed p + GetFrameTime inp > particleMaximumElapsed\<rparr>
                    else p)
             (if IsMouseButtonPressed inp \<or> \<not> IsMouseButtonReleased inp \<and> slashing s
              then (particles s)[nat (nextParticleIndex s) :=
                     \<lparr>pposition = GetMousePosition inp, elapsed = 0, penabled = True\<rparr>]
              else particles s),
         nextParticleIndex :=
           (if IsMouseButtonPressed inp \<or> \<not> IsMouseButtonReleased inp \<and> slashing s
            then (nextParticleIndex s + 1) mod int MAX_PARTICLE_COUNT
            else nextParticleIndex s)\<rparr>"
    by auto
  have f: "0 \<le> nextFruitIndex s4" "nextFruitIndex s4 < int (length (fruits s4))"
    using assms by (simp_all add: eq cursors_in_bounds_def pools_sized_def)
  from spawn_step_fields [OF f, of inp]
  obtain s5 where s5: "spawn_step inp s4 = Some s5"
    by blast
  have "UpdatePlayState inp s = Some (for_loop MAX_FRUIT_COUNT (update_fruit inp) s5)"
    using s3 s4 s5 by (simp add: UpdatePlayState_def Let_def)
  with eq s5 show thesis
    by (rule that)
qed

lemma example_game_cursors: "cursors_in_bounds (example_game t)"
  by (simp add: example_game_def initial_game_eq static_storage_def cursors_in_bounds_def
      MAX_FRUIT_COUNT_def MAX_PARTICLE_COUNT_def)

section \<open>The spawn timer\<close>

lemma next_cursor_bounds:
  assumes "0 < m"
  shows "0 \<le> (n + 1) mod int m" and "(n + 1) mod int m < int m"
  using assms by simp_all

lemma divide_float32_mono:
  assumes "a \<le> b" and "0 < k"
  shows "a / Finite k \<le> b / Finite k"
proof (cases a; cases b)
  fix x y
  assume "a = Finite x" and "b = Finite y"
  then show ?thesis
    using assms to_float32_mono [of "x / k" "y / k"] by (simp add: divide_right_mono)
next
  fix y
  assume "a = NInf" and "b = Finite y"
  then show ?thesis
    using assms by (simp add: NInf_le)
next
  fix x
  assume "a = Finite x" and "b = PInf"
  then show ?thesis
    using assms by (simp add: le_PInf)
qed (use assms in simp_all)

lemma minus_float32_antimono:
  assumes "a \<le> b"
  shows "Finite c - b \<le> Finite c - a"
proof (cases a; cases b)
  fix x y
  assume "a = Finite x" and "b = Finite y"
  then show ?thesis
    using assms to_float32_mono [of "c + - y" "c + - x"] by (simp add: minus_float32_def)
next
  fix y
  assume "a = NInf" and "b = Finite y"
  then show ?thesis
    by (simp add: minus_float32_def le_PInf)
next
  fix x
  assume "a = Finite x" and "b = PInf"
  then show ?thesis
    by (simp add: minus_float32_def NInf_le)
qed (use assms in \<open>simp_all add: minus_float32_def\<close>)

lemma spawnElapsedThreshold_antimono:
  assumes "t1 \<le> t2"
  shows "spawnElapsedThreshold t2 \<le> spawnElapsedThreshold t1"
  unfolding spawnElapsedThreshold_def minimumSpawnRate_value maximumElapsed_value
  by (intro minus_float32_antimono divide_float32_mono assms) simp

lemma clamp_mono:
  assumes "a \<le> b"
  shows "(if a < Finite c then Finite c else a) \<le> (if b < Finite c then Finite c else b)"
  using assms by (cases a; cases b) auto

lemma spawn_limit_antimono:
  assumes "t1 \<le> t2"
  shows "spawn_limit t2 \<le> spawn_limit t1"
  unfolding spawn_limit_def maximumSpawnRate_value
  by (intro clamp_mono spawnElapsedThreshold_antimono assms)

lemma spawn_limit_not_below: "\<not> spawn_limit t < maximumSpawnRate"
  unfolding spawn_limit_def maximumSpawnRate_value
  by (cases "spawnElapsedThreshold t") auto

lemma spawnElapsedThreshold_not_NaN:
  assumes "t \<noteq> NaN"
  shows "spawnElapsedThreshold t \<noteq> NaN"
  unfolding spawnElapsedThreshold_def minimumSpawnRate_value maximumElapsed_value
proof (cases t)
  case (Finite x)
  then show "Finite 1 - t / Finite 30 \<noteq> NaN"
    by (cases "to_float32 (x / 30)") (simp_all add: minus_float32_def)
qed (use assms in \<open>simp_all add: minus_float32_def\<close>)

lemma spawn_limit_floor:
  assumes "t \<noteq> NaN"
  shows "maximumSpawnRate \<le> spawn_limit t"
  using spawnElapsedThreshold_not_NaN [OF assms]
  unfolding spawn_limit_def maximumSpawnRate_value
  by (cases "spawnElapsedThreshold t") auto

text \<open>
  C4. In the Play-state update a spawn is triggered exactly when the accumulated
  \<open>spawnElapsed\<close> exceeds \<open>max (1 - totalElapsed / 30) 0.1f\<close>, both timers taken after the
  frame time has been added and every operation done in binary32, as the code does them
  (\<open>0.1f\<close> is the float nearest to 0.1, which is 13421773 / 134217728 and larger than
  0.1). On a trigger \<open>spawnElapsed\<close> is set to 0 and \<open>SpawnFruit\<close> runs on that state: the
  state that enters the loop over the fruits has the spawned fruit in its pool, the
  advanced cursor and \<open>spawnElapsed = 0\<close>; without a trigger the pool and the cursor are
  as before. The threshold is non-increasing in \<open>totalElapsed\<close>, it is never below
  \<open>0.1f\<close>, and for every \<open>totalElapsed\<close> that is a number it is at least 0.1.
\<close>

theorem spawn_trigger:
  assumes "pools_sized s" and "cursors_in_bounds s"
  shows "spawn_limit t = max (minimumSpawnRate - t / maximumElapsed) maximumSpawnRate \<and>
         minimumSpawnRate = Finite 1 \<and> maximumElapsed = Finite 30 \<and>
         maximumSpawnRate = Finite (13421773 / 134217728) \<and>
         (t1 \<le> t2 \<longrightarrow> spawn_limit t2 \<le> spawn_limit t1) \<and>
         \<not> spawn_limit t < maximumSpawnRate \<and> \<not> spawn_limit t < Finite (1 / 10) \<and>
         (t \<noteq> NaN \<longrightarrow> Finite (1 / 10) \<le> spawn_limit t) \<and>
         spawn_step inp u =
           (if spawnElapsed u
                 > max (minimumSpawnRate - totalElapsed u / maximumElapsed) maximumSpawnRate
            then SpawnFruit inp (u\<lparr>spawnElapsed := 0\<rparr>) else Some u) \<and>
         (\<exists>s5 sp. UpdatePlayState inp s = Some (for_loop MAX_FRUIT_COUNT (update_fruit inp) s5) \<and>
            SpawnFruit inp s = Some sp \<and>
            (if spawnElapsed s + GetFrameTime inp
                  > max (minimumSpawnRate - (totalElapsed s + GetFrameTime inp) / maximumElapsed)
                      maximumSpawnRate
             then fruits s5 = fruits sp \<and> nextFruitIndex s5 = (nextFruitIndex s + 1) mod 48 \<and>
                  spawnElapsed s5 = 0
             else fruits s5 = fruits s \<and> nextFruitIndex s5 = nextFruitIndex s \<and>
                  spawnElapsed s5 = spawnElapsed s + GetFrameTime inp) \<and>
            nextFruitIndex (for_loop MAX_FRUIT_COUNT (update_fruit inp) s5) = nextFruitIndex s5)"
proof -
  obtain s4 s5 where s4: "s4 = s\<lparr>totalElapsed := totalElapsed s + GetFrameTime inp,
         spawnElapsed := spawnElapsed s + GetFrameTime inp,
         slashing := IsMouseButtonPressed inp \<or> \<not> IsMouseButtonReleased inp \<and> slashing s,
         particles :=
           map (\<lambda>p. if penabled p
                    then p\<lparr>elapsed := elapsed p + GetFrameTime inp,
                           penabled := \<not> elapsed p + GetFrameTime inp > particleMaximumElapsed\<rparr>
                    else p)
             (if IsMouseButtonPressed inp \<or> \<not> IsMouseButtonReleased inp \<and> slashing s
              then (particles s)[nat (nextParticleIndex s) :=
                     \<lparr>pposition = GetMousePosition inp, elapsed = 0, penabled = True\<rparr>]
              else particles s),
         nextParticleIndex :=
           (if IsMouseButtonPressed inp \<or> \<not> IsMouseButtonReleased inp \<and> slashing s
            then (nextParticleIndex s + 1) mod int MAX_PARTICLE_COUNT
            else nextParticleIndex s)\<rparr>"
    and s5: "spawn_step inp s4 = Some s5"
    and upd: "UpdatePlayState inp s = Some (for_loop MAX_FRUIT_COUNT (update_fruit inp) s5)"
    using UpdatePlayState_phases [OF assms] by blast
  have f: "0 \<le> nextFruitIndex s" "nextFruitIndex s < int (length (fruits s))"
    using assms by (simp_all add: cursors_in_bounds_def pools_sized_def)
  have f4: "0 \<le> nextFruitIndex s4" "nextFruitIndex s4 < int (length (fruits s4))"
    using f by (simp_all add: s4)
  have sp: "SpawnFruit inp s = Some (the (SpawnFruit inp s))"
    by (simp add: SpawnFruit_Some [OF f])
  have same: "fruits (the (SpawnFruit inp s4)) = fruits (the (SpawnFruit inp s))"
    by (simp add: SpawnFruit_Some [OF f] SpawnFruit_Some [OF f4]) (simp add: s4)
  have fields: "length (fruits s5) = length (fruits s4)" "particles s5 = particles s4"
    "nextFruitIndex s5 =
       (if spawnElapsed s4 > spawn_limit (totalElapsed s4)
        then (nextFruitIndex s4 + 1) mod int MAX_FRUIT_COUNT else nextFruitIndex s4)"
    "spawnElapsed s5 =
       (if spawnElapsed s4 > spawn_limit (totalElapsed s4) then 0 else spawnElapsed s4)"
    "fruits s5 =
       (if spawnElapsed s4 > spawn_limit (totalElapsed s4)
        then fruits (the (SpawnFruit inp s4)) else fruits s4)"
    using spawn_step_fields [OF f4, of inp] s5 by auto
  have sized5: "pools_sized s5"
    using assms(1) by (simp add: pools_sized_def fields(1,2)) (simp add: s4)
  have loop: "nextFruitIndex (for_loop MAX_FRUIT_COUNT (update_fruit inp) s5) = nextFruitIndex s5"
    using fruit_loop_frame [OF sized5 order_refl, of inp] by simp
  have step: "spawn_step inp u =
           (if spawnElapsed u
                 > max (minimumSpawnRate - totalElapsed u / maximumElapsed) maximumSpawnRate
            then SpawnFruit inp (u\<lparr>spawnElapsed := 0\<rparr>) else Some u)"
    by (simp add: spawn_step_def spawn_limit_max)
  have five: "if spawnElapsed s + GetFrameTime inp
                  > max (minimumSpawnRate - (totalElapsed s + GetFrameTime inp) / maximumElapsed)
                      maximumSpawnRate
             then fruits s5 = fruits (the (SpawnFruit inp s)) \<and>
                  nextFruitIndex s5 = (nextFruitIndex s + 1) mod 48 \<and> spawnElapsed s5 = 0
             else fruits s5 = fruits s \<and> nextFruitIndex s5 = nextFruitIndex s \<and>
                  spawnElapsed s5 = spawnElapsed s + GetFrameTime inp"
    by (simp add: fields same spawn_limit_max [symmetric]) (simp add: s4 MAX_FRUIT_COUNT_def)
  have ex: "\<exists>s5 sp. UpdatePlayState inp s = Some (for_loop MAX_FRUIT_COUNT (update_fruit inp) s5) \<and>
            SpawnFruit inp s = Some sp \<and>
            (if spawnElapsed s + GetFrameTime inp
                  > max (minimumSpawnRate - (totalElapsed s + GetFrameTime inp) / maximumElapsed)
                      maximumSpawnRate
             then fruits s5 = fruits sp \<and> nextFruitIndex s5 = (nextFruitIndex s + 1) mod 48 \<and>
                  spawnElapsed s5 = 0
             else fruits s5 = fruits s \<and> nextFruitIndex s5 = nextFruitIndex s \<and>
                  spawnElapsed s5 = spawnElapsed s + GetFrameTime inp) \<and>
            nextFruitIndex (for_loop MAX_FRUIT_COUNT (update_fruit inp) s5) = nextFruitIndex s5"
    using upd sp five loop by blast
  have tenth: "Finite (1 / 10) \<le> maximumSpawnRate"
    by (simp add: maximumSpawnRate_value)
  have below: "\<not> spawn_limit t < Finite (1 / 10)"
    using spawn_limit_not_below [of t] tenth
    by (cases "spawn_limit t") (auto simp: maximumSpawnRate_value)
  have floor: "t \<noteq> NaN \<longrightarrow> Finite (1 / 10) \<le> spawn_limit t"
    using spawn_limit_floor [of t] tenth by (auto intro: less_eq_float32_trans)
  have mono: "t1 \<le> t2 \<longrightarrow> spawn_limit t2 \<le> spawn_limit t1"
    by (simp add: spawn_limit_antimono)
  show ?thesis
    using spawn_limit_max [of t] minimumSpawnRate_value maximumElapsed_value
      maximumSpawnRate_value mono spawn_limit_not_below [of t] below floor step ex
    by (intro conjI)
qed

theorem spawn_trigger_witness:
  "pools_sized ((example_game appleType)\<lparr>spawnElapsed := Finite 1\<rparr>) \<and>
   cursors_in_bounds ((example_game appleType)\<lparr>spawnElapsed := Finite 1\<rparr>) \<and>
   Finite 15 \<le> Finite 27 \<and> Finite 27 \<noteq> NaN \<and>
   spawn_limit (Finite 27) \<le> spawn_limit (Finite 15) \<and>
   Finite (1 / 10) \<le> spawn_limit (Finite 27) \<and>
   spawn_limit (Finite 0) = Finite 1 \<and> spawn_limit (Finite 15) = Finite (1 / 2) \<and>
   spawn_limit (Finite 27) = Finite (838861 / 8388608) \<and>
   spawn_limit (Finite 60) = Finite (13421773 / 134217728) \<and>
   \<not> maximumSpawnRate > spawn_limit (Finite 27 + maximumSpawnRate) \<and>
   (\<exists>s5. UpdatePlayState example_input ((example_game appleType)\<lparr>spawnElapsed := Finite 1\<rparr>) =
            Some (for_loop MAX_FRUIT_COUNT (update_fruit example_input) s5) \<and>
          nextFruitIndex s5 = 1 \<and> spawnElapsed s5 = 0)"
proof -
  have h: "pools_sized ((example_game appleType)\<lparr>spawnElapsed := Finite 1\<rparr>)"
    "cursors_in_bounds ((example_game appleType)\<lparr>spawnElapsed := Finite 1\<rparr>)"
    using example_game_sized [of appleType] example_game_cursors [of appleType]
    by (simp_all add: pools_sized_def cursors_in_bounds_def)
  have v: "spawnElapsed ((example_game appleType)\<lparr>spawnElapsed := Finite 1\<rparr>) = Finite 1"
    "totalElapsed ((example_game appleType)\<lparr>spawnElapsed := Finite 1\<rparr>) = 0"
    "nextFruitIndex ((example_game appleType)\<lparr>spawnElapsed := Finite 1\<rparr>) = 0"
    "GetFrameTime example_input = Finite (1 / 64)"
    by (simp_all add: example_game_def initial_game_eq static_storage_def example_input_def)
  have c: "Finite 1 + Finite (1 / 64)
             > max (minimumSpawnRate - (0 + Finite (1 / 64)) / maximumElapsed) maximumSpawnRate"
    "spawn_limit (Finite 0) = Finite 1" "spawn_limit (Finite 15) = Finite (1 / 2)"
    "spawn_limit (Finite 27) = Finite (838861 / 8388608)"
    "spawn_limit (Finite 60) = Finite (13421773 / 134217728)"
    "\<not> maximumSpawnRate > spawn_limit (Finite 27 + maximumSpawnRate)"
    by code_simp+
  note t = spawn_trigger [OF h, where inp = example_input and t = "Finite 27"
      and ?t1.0 = "Finite 15" and ?t2.0 = "Finite 27" and u = initial_game]
  from t have m: "Finite 15 \<le> Finite 27 \<longrightarrow> spawn_limit (Finite 27) \<le> spawn_limit (Finite 15)"
    by (elim conjE)
  from t have fl: "Finite 27 \<noteq> NaN \<longrightarrow> Finite (1 / 10) \<le> spawn_limit (Finite 27)"
    by (elim conjE)
  from t have "\<exists>s5 sp. UpdatePlayState example_input
            ((example_game appleType)\<lparr>spawnElapsed := Finite 1\<rparr>) =
            Some (for_loop MAX_FRUIT_COUNT (update_fruit example_input) s5) \<and>
          SpawnFruit example_input ((example_game appleType)\<lparr>spawnElapsed := Finite 1\<rparr>) = Some sp \<and>
          (if Finite 1 + Finite (1 / 64)
                > max (minimumSpawnRate - (0 + Finite (1 / 64)) / maximumElapsed) maximumSpawnRate
           then fruits s5 = fruits sp \<and> nextFruitIndex s5 = (0 + 1) mod 48 \<and> spawnElapsed s5 = 0
           else fruits s5 = fruits ((example_game appleType)\<lparr>spawnElapsed := Finite 1\<rparr>) \<and>
                nextFruitIndex s5 = 0 \<and> spawnElapsed s5 = Finite 1 + Finite (1 / 64)) \<and>
          nextFruitIndex (for_loop MAX_FRUIT_COUNT (update_fruit example_input) s5) =
            nextFruitIndex s5"
    unfolding v by (elim conjE)
  then have "\<exists>s5 sp. UpdatePlayState example_input
            ((example_game appleType)\<lparr>spawnElapsed := Finite 1\<rparr>) =
            Some (for_loop MAX_FRUIT_COUNT (update_fruit example_input) s5) \<and>
          SpawnFruit example_input ((example_game appleType)\<lparr>spawnElapsed := Finite 1\<rparr>) = Some sp \<and>
          (fruits s5 = fruits sp \<and> nextFruitIndex s5 = (0 + 1) mod 48 \<and> spawnElapsed s5 = 0) \<and>
          nextFruitIndex (for_loop MAX_FRUIT_COUNT (update_fruit example_input) s5) =
            nextFruitIndex s5"
    by (simp only: c(1) if_True)
  then have e: "\<exists>s5. UpdatePlayState example_input
            ((example_game appleType)\<lparr>spawnElapsed := Finite 1\<rparr>) =
            Some (for_loop MAX_FRUIT_COUNT (update_fruit example_input) s5) \<and>
          nextFruitIndex s5 = 1 \<and> spawnElapsed s5 = 0"
    by auto
  have o: "Finite 15 \<le> Finite 27" "Finite 27 \<noteq> NaN"
    by simp_all
  show ?thesis
    using h o m fl c(2-6) e by (intro conjI) blast+
qed

section \<open>The particle trail in the update\<close>

text \<open>
  C7, as stated, fails: the update does not look at the button but at the flag
  \<open>slashing\<close>, which only a press seen by the Play-state update sets. The press that
  starts the game is seen by the start screen; in the next frame the button is still
  held, the Play-state update runs, and no particle is written: the pool and the cursor
  are as before.
\<close>

theorem held_button_without_particle:
  "state initial_game = startState \<and>
   Update press_input initial_game = Some (FromStartToPlayState initial_game) \<and>
   state (FromStartToPlayState initial_game) = playState \<and>
   button_down False [press_input] \<and>
   \<not> IsMouseButtonReleased example_input \<and>
   button_down False [press_input, example_input] \<and>
   run_frames [press_input, example_input] initial_game =
     UpdatePlayState example_input (FromStartToPlayState initial_game) \<and>
   map_option particles (UpdatePlayState example_input (FromStartToPlayState initial_game)) =
     Some (particles (FromStartToPlayState initial_game)) \<and>
   map_option nextParticleIndex
       (UpdatePlayState example_input (FromStartToPlayState initial_game)) =
     Some (nextParticleIndex (FromStartToPlayState initial_game)) \<and>
   particles (FromStartToPlayState initial_game) =
     replicate 16 \<lparr>pposition = zero_vector, elapsed = 0, penabled = False\<rparr> \<and>
   nextParticleIndex (FromStartToPlayState initial_game) = 0"
proof -
  have v: "state initial_game = startState"
    "state (FromStartToPlayState initial_game) = playState"
    "particles (FromStartToPlayState initial_game) =
       replicate 16 \<lparr>pposition = zero_vector, elapsed = 0, penabled = False\<rparr>"
    "nextParticleIndex (FromStartToPlayState initial_game) = 0"
    by (simp_all add: FromStartToPlayState_def initial_game_eq static_storage_def
        MAX_PARTICLE_COUNT_def)
  have i: "IsMouseButtonPressed press_input" "\<not> IsMouseButtonPressed example_input"
    "\<not> IsMouseButtonReleased example_input"
    by (simp_all add: press_input_def example_input_def)
  have u: "Update press_input initial_game = Some (FromStartToPlayState initial_game)"
    by (simp add: Update_def UpdateStartState_def v i)
  have r: "run_frames [press_input, example_input] initial_game =
      UpdatePlayState example_input (FromStartToPlayState initial_game)"
    by (simp add: u) (simp add: Update_def v split: option.split)
  have b: "button_down False [press_input]" "button_down False [press_input, example_input]"
    by (simp_all add: i)
  have p: "map_option particles
        (UpdatePlayState example_input (FromStartToPlayState initial_game)) =
      Some (particles (FromStartToPlayState initial_game))"
    by code_simp
  have n: "map_option nextParticleIndex
        (UpdatePlayState example_input (FromStartToPlayState initial_game)) = Some 0"
    by code_simp
  show ?thesis
    using v u i(3) b r p n by simp
qed

text \<open>
  C7, amended. In the Play-state update, while the flag \<open>slashing\<close> is set after the
  frame's button events (a press seen by the Play-state update sets it, otherwise a
  release seen there clears it; the start and lose screens leave it alone), exactly one
  particle is written per frame: the slot at the particle write cursor becomes the
  pointer position with \<open>elapsed = 0\<close> and \<open>enabled = true\<close>, and the cursor advances
  modulo 16; otherwise the pool and the cursor are unchanged. Then every enabled
  particle has the frame time added to \<open>elapsed\<close> and is disabled when the sum exceeds
  \<open>particleMaximumElapsed\<close>, the float \<open>0.1f\<close>; a disabled particle is left alone. The rest
  of the update leaves the particles as they are, unless a slashed donut ends the game in
  this frame, which disables them all.
\<close>

theorem particle_trail:
  assumes "pools_sized s" and "cursors_in_bounds s"
  shows "slashing (UpdateStartState inp s) = slashing s \<and>
     slashing (UpdateLoseState inp s) = slashing s \<and>
     particleMaximumElapsed = Finite (13421773 / 134217728) \<and>
     (\<exists>s3 s'.
     trail_step inp (read_slash_input inp (accumulate_time inp s)) = Some s3 \<and>
     slashing s3 = (IsMouseButtonPressed inp \<or> \<not> IsMouseButtonReleased inp \<and> slashing s) \<and>
     (if slashing s3
      then particles s3 = (particles s)[nat (nextParticleIndex s) :=
             \<lparr>pposition = GetMousePosition inp, elapsed = 0, penabled = True\<rparr>] \<and>
           nextParticleIndex s3 = (nextParticleIndex s + 1) mod 16
      else particles s3 = particles s \<and> nextParticleIndex s3 = nextParticleIndex s) \<and>
     length (particles s3) = 16 \<and>
     length (particles (for_loop MAX_PARTICLE_COUNT (age_particle inp) s3)) = 16 \<and>
     (\<forall>i<16.
        if penabled (particles s3 ! i)
        then particles (for_loop MAX_PARTICLE_COUNT (age_particle inp) s3) ! i =
               (particles s3 ! i)
                 \<lparr>elapsed := elapsed (particles s3 ! i) + GetFrameTime inp,
                  penabled := \<not> elapsed (particles s3 ! i) + GetFrameTime inp > particleMaximumElapsed\<rparr>
        else particles (for_loop MAX_PARTICLE_COUNT (age_particle inp) s3) ! i =
               particles s3 ! i) \<and>
     UpdatePlayState inp s = Some s' \<and>
     nextParticleIndex s' = nextParticleIndex s3 \<and>
     (particles s' = particles (for_loop MAX_PARTICLE_COUNT (age_particle inp) s3) \<or>
      state s' = loseState \<and> list_all (\<lambda>p. \<not> penabled p) (particles s')))"
proof -
  let ?s2 = "read_slash_input inp (accumulate_time inp s)"
  have len: "length (particles s) = 16"
    using assms(1) by (simp add: pools_sized_def MAX_PARTICLE_COUNT_def)
  have p: "0 \<le> nextParticleIndex s" "nextParticleIndex s < int MAX_PARTICLE_COUNT"
    using assms(2) by (simp_all add: cursors_in_bounds_def)
  have c: "0 \<le> nextParticleIndex ?s2" "nextParticleIndex ?s2 < int (length (particles ?s2))"
    using p len by (simp_all add: read_slash_input_eq accumulate_time_def MAX_PARTICLE_COUNT_def)
  define s3 where "s3 =
     (if slashing ?s2
      then ?s2\<lparr>particles := (particles ?s2)[nat (nextParticleIndex ?s2) :=
                 \<lparr>pposition = GetMousePosition inp, elapsed = 0, penabled = True\<rparr>],
              nextParticleIndex := (nextParticleIndex ?s2 + 1) mod int MAX_PARTICLE_COUNT\<rparr>
      else ?s2)"
  define s4 where "s4 = for_loop MAX_PARTICLE_COUNT (age_particle inp) s3"
  have s3: "trail_step inp ?s2 = Some s3"
    unfolding s3_def by (rule trail_step_Some [OF c])
  have sl3: "slashing s3 =
      (IsMouseButtonPressed inp \<or> \<not> IsMouseButtonReleased inp \<and> slashing s)"
    by (simp add: s3_def read_slash_input_eq accumulate_time_def)
  have app: "if slashing s3
      then particles s3 = (particles s)[nat (nextParticleIndex s) :=
             \<lparr>pposition = GetMousePosition inp, elapsed = 0, penabled = True\<rparr>] \<and>
           nextParticleIndex s3 = (nextParticleIndex s + 1) mod 16
      else particles s3 = particles s \<and> nextParticleIndex s3 = nextParticleIndex s"
    by (auto simp: s3_def read_slash_input_eq accumulate_time_def MAX_PARTICLE_COUNT_def)
  have len3: "length (particles s3) = 16"
    using len by (simp add: s3_def read_slash_input_eq accumulate_time_def)
  have len3M: "length (particles s3) = MAX_PARTICLE_COUNT"
    using len3 by (simp add: MAX_PARTICLE_COUNT_def)
  have le3: "MAX_PARTICLE_COUNT \<le> length (particles s3)"
    using len3M by simp
  have aged: "particles s4 =
        map (\<lambda>p. if penabled p
                 then p\<lparr>elapsed := elapsed p + GetFrameTime inp,
                        penabled := \<not> elapsed p + GetFrameTime inp > particleMaximumElapsed\<rparr>
                 else p) (particles s3)"
    using len3M by (simp add: s4_def age_particles_loop [OF le3])
  have len4: "length (particles s4) = 16"
    using len3 by (simp add: aged)
  have each: "\<forall>i<16.
        if penabled (particles s3 ! i)
        then particles s4 ! i =
               (particles s3 ! i)
                 \<lparr>elapsed := elapsed (particles s3 ! i) + GetFrameTime inp,
                  penabled := \<not> elapsed (particles s3 ! i) + GetFrameTime inp > particleMaximumElapsed\<rparr>
        else particles s4 ! i = particles s3 ! i"
    using len3 by (simp add: aged)
  have f4: "0 \<le> nextFruitIndex s4" "nextFruitIndex s4 < int (length (fruits s4))"
   and sized4: "pools_sized s4" and np4: "nextParticleIndex s4 = nextParticleIndex s3"
    using assms len3M
    by (simp_all add: s4_def age_particles_loop [OF le3] cursors_in_bounds_def pools_sized_def)
       (simp_all add: s3_def read_slash_input_eq accumulate_time_def)
  obtain s5 where s5: "spawn_step inp s4 = Some s5"
    and fields: "length (fruits s5) = length (fruits s4)" "particles s5 = particles s4"
      "nextParticleIndex s5 = nextParticleIndex s4"
    using spawn_step_fields [OF f4, of inp] by blast
  have sized5: "pools_sized s5"
    using sized4 by (simp add: pools_sized_def fields)
  define s' where "s' = for_loop MAX_FRUIT_COUNT (update_fruit inp) s5"
  have upd: "UpdatePlayState inp s = Some s'"
    using s3 s5 by (simp add: UpdatePlayState_def Let_def s4_def s'_def)
  have last: "nextParticleIndex s' = nextParticleIndex s3"
    "particles s' = particles s4 \<or> state s' = loseState \<and> list_all (\<lambda>p. \<not> penabled p) (particles s')"
    using fruit_loop_frame [OF sized5 order_refl, of inp]
    by (auto simp: s'_def fields np4 pools_cleared_def)
  have other: "slashing (UpdateStartState inp s) = slashing s"
    "slashing (UpdateLoseState inp s) = slashing s"
    by (simp_all add: UpdateStartState_def UpdateLoseState_def FromStartToPlayState_def
        FromLoseToStartState_def)
  have "\<exists>s3 s'.
     trail_step inp (read_slash_input inp (accumulate_time inp s)) = Some s3 \<and>
     slashing s3 = (IsMouseButtonPressed inp \<or> \<not> IsMouseButtonReleased inp \<and> slashing s) \<and>
     (if slashing s3
      then particles s3 = (particles s)[nat (nextParticleIndex s) :=
             \<lparr>pposition = GetMousePosition inp, elapsed = 0, penabled = True\<rparr>] \<and>
           nextParticleIndex s3 = (nextParticleIndex s + 1) mod 16
      else particles s3 = particles s \<and> nextParticleIndex s3 = nextParticleIndex s) \<and>
     length (particles s3) = 16 \<and>
     length (particles (for_loop MAX_PARTICLE_COUNT (age_particle inp) s3)) = 16 \<and>
     (\<forall>i<16.
        if penabled (particles s3 ! i)
        then particles (for_loop MAX_PARTICLE_COUNT (age_particle inp) s3) ! i =
               (particles s3 ! i)
                 \<lparr>elapsed := elapsed (particles s3 ! i) + GetFrameTime inp,
                  penabled := \<not> elapsed (particles s3 ! i) + GetFrameTime inp > particleMaximumElapsed\<rparr>
        else particles (for_loop MAX_PARTICLE_COUNT (age_particle inp) s3) ! i =
               particles s3 ! i) \<and>
     UpdatePlayState inp s = Some s' \<and>
     nextParticleIndex s' = nextParticleIndex s3 \<and>
     (particles s' = particles (for_loop MAX_PARTICLE_COUNT (age_particle inp) s3) \<or>
      state s' = loseState \<and> list_all (\<lambda>p. \<not> penabled p) (particles s'))"
    using s3 sl3 app len3 len4 each upd last unfolding s4_def by blast
  then show ?thesis
    using other particleMaximumElapsed_value by (intro conjI)
qed

theorem particle_trail_witness:
  "pools_sized (example_game cherryType) \<and> cursors_in_bounds (example_game cherryType) \<and>
   slashing (example_game cherryType) \<and> nextParticleIndex (example_game cherryType) = 0 \<and>
   (\<exists>s3 s'.
      trail_step example_input
        (read_slash_input example_input (accumulate_time example_input (example_game cherryType)))
        = Some s3 \<and>
      slashing s3 \<and>
      particles s3 ! 0 =
        \<lparr>pposition = \<lparr>xc = Finite 132, yc = Finite 132\<rparr>, elapsed = 0, penabled = True\<rparr> \<and>
      particles (for_loop MAX_PARTICLE_COUNT (age_particle example_input) s3) ! 0 =
        \<lparr>pposition = \<lparr>xc = Finite 132, yc = Finite 132\<rparr>, elapsed = Finite (1 / 64),
         penabled = True\<rparr> \<and>
      nextParticleIndex s3 = 1 \<and>
      UpdatePlayState example_input (example_game cherryType) = Some s' \<and>
      nextParticleIndex s' = 1)"
proof -
  have v: "slashing (example_game cherryType)" "nextParticleIndex (example_game cherryType) = 0"
    "particles (example_game cherryType) =
       replicate 16 \<lparr>pposition = zero_vector, elapsed = 0, penabled = False\<rparr>"
    "GetFrameTime example_input = Finite (1 / 64)"
    "GetMousePosition example_input = \<lparr>xc = Finite 132, yc = Finite 132\<rparr>"
    "\<not> IsMouseButtonPressed example_input" "\<not> IsMouseButtonReleased example_input"
    by (simp_all add: example_game_def initial_game_eq static_storage_def example_input_def
        MAX_PARTICLE_COUNT_def)
  have fl: "(0::float32) + Finite (1 / 64) = Finite (1 / 64)"
    "\<not> Finite (1 / 64) > particleMaximumElapsed"
    by code_simp+
  from particle_trail [OF example_game_sized [of cherryType] example_game_cursors [of cherryType],
      of example_input]
  have "\<exists>s3 s'.
     trail_step example_input
       (read_slash_input example_input (accumulate_time example_input (example_game cherryType)))
       = Some s3 \<and>
     slashing s3 =
       (IsMouseButtonPressed example_input \<or>
        \<not> IsMouseButtonReleased example_input \<and> slashing (example_game cherryType)) \<and>
     (if slashing s3
      then particles s3 = (particles (example_game cherryType))
             [nat (nextParticleIndex (example_game cherryType)) :=
                \<lparr>pposition = GetMousePosition example_input, elapsed = 0, penabled = True\<rparr>] \<and>
           nextParticleIndex s3 = (nextParticleIndex (example_game cherryType) + 1) mod 16
      else particles s3 = particles (example_game cherryType) \<and>
           nextParticleIndex s3 = nextParticleIndex (example_game cherryType)) \<and>
     length (particles s3) = 16 \<and>
     length (particles (for_loop MAX_PARTICLE_COUNT (age_particle example_input) s3)) = 16 \<and>
     (\<forall>i<16.
        if penabled (particles s3 ! i)
        then particles (for_loop MAX_PARTICLE_COUNT (age_particle example_input) s3) ! i =
               (particles s3 ! i)
                 \<lparr>elapsed := elapsed (particles s3 ! i) + GetFrameTime example_input,
                  penabled := \<not> elapsed (particles s3 ! i) + GetFrameTime example_input
                                > particleMaximumElapsed\<rparr>
        else particles (for_loop MAX_PARTICLE_COUNT (age_particle example_input) s3) ! i =
               particles s3 ! i) \<and>
     UpdatePlayState example_input (example_game cherryType) = Some s' \<and>
     nextParticleIndex s' = nextParticleIndex s3 \<and>
     (particles s' = particles (for_loop MAX_PARTICLE_COUNT (age_particle example_input) s3) \<or>
      state s' = loseState \<and> list_all (\<lambda>p. \<not> penabled p) (particles s'))"
    by (elim conjE)
  then obtain s3 s' where
    a: "trail_step example_input
         (read_slash_input example_input (accumulate_time example_input (example_game cherryType)))
         = Some s3"
    and b: "slashing s3 =
         (IsMouseButtonPressed example_input \<or>
          \<not> IsMouseButtonReleased example_input \<and> slashing (example_game cherryType))"
    and c: "if slashing s3
      then particles s3 = (particles (example_game cherryType))
             [nat (nextParticleIndex (example_game cherryType)) :=
                \<lparr>pposition = GetMousePosition example_input, elapsed = 0, penabled = True\<rparr>] \<and>
           nextParticleIndex s3 = (nextParticleIndex (example_game cherryType) + 1) mod 16
      else particles s3 = particles (example_game cherryType) \<and>
           nextParticleIndex s3 = nextParticleIndex (example_game cherryType)"
    and d: "\<forall>i<16.
        if penabled (particles s3 ! i)
        then particles (for_loop MAX_PARTICLE_COUNT (age_particle example_input) s3) ! i =
               (particles s3 ! i)
                 \<lparr>elapsed := elapsed (particles s3 ! i) + GetFrameTime example_input,
                  penabled := \<not> elapsed (particles s3 ! i) + GetFrameTime example_input
                                > particleMaximumElapsed\<rparr>
        else particles (for_loop MAX_PARTICLE_COUNT (age_particle example_input) s3) ! i =
               particles s3 ! i"
    and e: "UpdatePlayState example_input (example_game cherryType) = Some s'"
      "nextParticleIndex s' = nextParticleIndex s3"
    by blast
  have b': "slashing s3"
    using b by (simp add: v)
  have c': "particles s3 ! 0 =
      \<lparr>pposition = \<lparr>xc = Finite 132, yc = Finite 132\<rparr>, elapsed = 0, penabled = True\<rparr>"
    "nextParticleIndex s3 = 1"
    using c b' by (simp_all add: v)
  have "particles (for_loop MAX_PARTICLE_COUNT (age_particle example_input) s3) ! 0 =
        \<lparr>pposition = \<lparr>xc = Finite 132, yc = Finite 132\<rparr>, elapsed = Finite (1 / 64),
         penabled = True\<rparr>"
    using d [rule_format, of 0] fl by (simp add: c' v)
  then show ?thesis
    using a b' c' e v(1,2) example_game_sized [of cherryType] example_game_cursors [of cherryType]
    by auto
qed

section \<open>The step of one fruit\<close>

lemma move_fruit_eq:
  "move_fruit f =
     f\<lparr>position := \<lparr>xc = xc (position f) + xc (velocity f),
                     yc = yc (position f) + yc (velocity f)\<rparr>,
       velocity := \<lparr>xc = xc (velocity f), yc = yc (velocity f) - gravity\<rparr>\<rparr>"
  by (cases f, cases "position f", cases "velocity f") (simp add: move_fruit_def Let_def)

lemma disabled_fruit_eq: "\<not> enabled f \<Longrightarrow> f\<lparr>enabled := False\<rparr> = f"
  by (cases f) simp

lemma SlashFruit_slot:
  assumes "pools_sized s" and "i < length (fruits s)"
  shows "fruits (SlashFruit i s) ! i = (fruits s ! i)\<lparr>enabled := False\<rparr>"
proof (cases "type (fruits s ! i) = donutType")
  case True
  have d: "pools_sized (disable_fruit i s)"
    using assms(1) by (rule pools_sized_disable_fruit)
  have "SlashFruit i s = FromPlayToLoseState (disable_fruit i s)"
    using assms(2) True by (rule SlashFruit_donut)
  then show ?thesis
    using assms(2) by (simp add: FromPlayToLoseState_eq [OF d]) (simp add: disable_fruit_def)
next
  case False
  then show ?thesis
    using assms(2) by (simp add: SlashFruit_fruit disable_fruit_def)
qed

lemma update_fruit_steps:
  "update_fruit inp i s =
     (if \<not> enabled (fruits s ! i) then s
      else if yc (position (fruits s ! i)) > Finite 540
      then s\<lparr>fruits := (fruits s)[i := (fruits s ! i)\<lparr>enabled := False\<rparr>]\<rparr>
      else if slashing s \<and>
              CheckCollisionPointCircle (GetMousePosition inp)
                \<lparr>xc = xc (position (fruits s ! i)) + Finite 32,
                 yc = yc (position (fruits s ! i)) + Finite 32\<rparr> (Finite 32)
      then SlashFruit i s
      else s\<lparr>fruits := (fruits s)[i := move_fruit (fruits s ! i)]\<rparr>)"
  by (simp add: update_fruit_def screenHeight_value fruitRadius_value disable_fruit_def)

lemma update_fruit_slot:
  assumes "pools_sized s" and "i < MAX_FRUIT_COUNT"
  shows "fruits (update_fruit inp i s) ! i =
     (if \<not> enabled (fruits s ! i) then fruits s ! i
      else if yc (position (fruits s ! i)) > Finite 540
      then (fruits s ! i)\<lparr>enabled := False\<rparr>
      else if slashing s \<and>
              CheckCollisionPointCircle (GetMousePosition inp)
                \<lparr>xc = xc (position (fruits s ! i)) + Finite 32,
                 yc = yc (position (fruits s ! i)) + Finite 32\<rparr> (Finite 32)
      then (fruits s ! i)\<lparr>enabled := False\<rparr>
      else move_fruit (fruits s ! i))"
proof -
  have i: "i < length (fruits s)"
    using assms by (simp add: pools_sized_def)
  show ?thesis
    using i by (simp add: update_fruit_steps SlashFruit_slot [OF assms(1) i])
qed

lemma update_fruit_other_slot:
  assumes "pools_sized s" and "n < MAX_FRUIT_COUNT" and "i < MAX_FRUIT_COUNT" and "i \<noteq> n"
  shows "fruits (update_fruit inp n s) ! i = fruits s ! i \<and>
         slashing (update_fruit inp n s) = slashing s \<and>
         state (update_fruit inp n s) = state s
         \<or>
         state (update_fruit inp n s) = loseState \<and> pools_cleared (update_fruit inp n s) \<and>
         fruits (update_fruit inp n s) ! i = (fruits s ! i)\<lparr>enabled := False\<rparr>"
proof -
  have n: "n < length (fruits s)" and i: "i < length (fruits s)"
    using assms(1,2,3) by (simp_all add: pools_sized_def)
  have d: "pools_sized (disable_fruit n s)"
    using assms(1) by (rule pools_sized_disable_fruit)
  have "update_fruit inp n s = s \<or> update_fruit inp n s = disable_fruit n s \<or>
        update_fruit inp n s = SlashFruit n s \<or>
        update_fruit inp n s = s\<lparr>fruits := (fruits s)[n := move_fruit (fruits s ! n)]\<rparr>"
    by (simp add: update_fruit_def)
  then consider (off) "update_fruit inp n s = s"
    | (missed) "update_fruit inp n s = disable_fruit n s"
    | (slashed) "update_fruit inp n s = SlashFruit n s" "type (fruits s ! n) \<noteq> donutType"
    | (bomb) "update_fruit inp n s = SlashFruit n s" "type (fruits s ! n) = donutType"
    | (moved) "update_fruit inp n s = s\<lparr>fruits := (fruits s)[n := move_fruit (fruits s ! n)]\<rparr>"
    by blast
  then show ?thesis
  proof cases
    case off
    then show ?thesis by simp
  next
    case missed
    then show ?thesis using assms(4) by (simp add: disable_fruit_def)
  next
    case slashed
    then show ?thesis
      using n assms(4) by (simp add: SlashFruit_fruit disable_fruit_def)
  next
    case bomb
    then have eq: "update_fruit inp n s = FromPlayToLoseState (disable_fruit n s)"
      using n by (simp add: SlashFruit_donut)
    have "pools_cleared (FromPlayToLoseState (disable_fruit n s))"
      using d by (rule pools_cleared_lose)
    moreover have "state (FromPlayToLoseState (disable_fruit n s)) = loseState"
      by (simp add: FromPlayToLoseState_eq [OF d])
    moreover have "fruits (FromPlayToLoseState (disable_fruit n s)) ! i =
        (fruits s ! i)\<lparr>enabled := False\<rparr>"
      using i assms(4) by (simp add: FromPlayToLoseState_eq [OF d]) (simp add: disable_fruit_def)
    ultimately show ?thesis
      by (simp add: eq)
  next
    case moved
    then show ?thesis using assms(4) by simp
  qed
qed

lemma fruit_fold_cleared:
  assumes "pools_cleared u" and "\<forall>n\<in>set ns. n < length (fruits u)"
  shows "fold (update_fruit inp) ns u = u"
  using assms by (induction ns) (simp_all add: update_fruit_cleared)

lemma fruit_fold_other_slot:
  assumes "pools_sized u" and "i < MAX_FRUIT_COUNT"
    and "\<forall>n\<in>set ns. n < MAX_FRUIT_COUNT \<and> n \<noteq> i"
  shows "fruits (fold (update_fruit inp) ns u) ! i = fruits u ! i \<and>
         slashing (fold (update_fruit inp) ns u) = slashing u \<and>
         state (fold (update_fruit inp) ns u) = state u
         \<or>
         state (fold (update_fruit inp) ns u) = loseState \<and>
         pools_cleared (fold (update_fruit inp) ns u) \<and>
         fruits (fold (update_fruit inp) ns u) ! i = (fruits u ! i)\<lparr>enabled := False\<rparr>"
  using assms(1,3)
proof (induction ns arbitrary: u)
  case Nil
  then show ?case by simp
next
  case (Cons n ns)
  let ?u1 = "update_fruit inp n u"
  have n: "n < MAX_FRUIT_COUNT" "i \<noteq> n"
    and rest: "\<forall>n\<in>set ns. n < MAX_FRUIT_COUNT \<and> n \<noteq> i"
    using Cons.prems(2) by auto
  have sized1: "pools_sized ?u1"
    using update_fruit_frame [OF Cons.prems(1) n(1), of inp] by simp
  note one = update_fruit_other_slot [OF Cons.prems(1) n(1) assms(2) n(2), of inp]
  show ?case
  proof (cases "state ?u1 = loseState \<and> pools_cleared ?u1 \<and>
      fruits ?u1 ! i = (fruits u ! i)\<lparr>enabled := False\<rparr>")
    case True
    have "\<forall>n\<in>set ns. n < length (fruits ?u1)"
      using rest sized1 by (simp add: pools_sized_def)
    with True have "fold (update_fruit inp) ns ?u1 = ?u1"
      by (simp add: fruit_fold_cleared)
    then show ?thesis
      using True by simp
  next
    case False
    with one have same: "fruits ?u1 ! i = fruits u ! i" "slashing ?u1 = slashing u"
      "state ?u1 = state u"
      by auto
    show ?thesis
      using Cons.IH [OF sized1 rest] same by simp
  qed
qed

lemma for_loop_split:
  assumes "i < n"
  shows "for_loop n body s = fold body [Suc i..<n] (body i (for_loop i body s))"
proof -
  have "[0..<n] = [0..<i] @ i # [Suc i..<n]"
    using assms upt_add_eq_append [of 0 i "n - i"] by (simp add: upt_conv_Cons)
  then show ?thesis
    by (simp add: for_loop_def)
qed

lemma fruit_loop_slot:
  assumes "pools_sized s5" and "i < MAX_FRUIT_COUNT"
  shows "(\<not> enabled (fruits s5 ! i) \<longrightarrow>
            fruits (for_loop MAX_FRUIT_COUNT (update_fruit inp) s5) ! i = fruits s5 ! i) \<and>
         (enabled (fruits s5 ! i) \<and> yc (position (fruits s5 ! i)) > Finite 540 \<longrightarrow>
            fruits (for_loop MAX_FRUIT_COUNT (update_fruit inp) s5) ! i =
              (fruits s5 ! i)\<lparr>enabled := False\<rparr>) \<and>
         (enabled (fruits s5 ! i) \<and> \<not> yc (position (fruits s5 ! i)) > Finite 540 \<and>
          slashing s5 \<and>
          CheckCollisionPointCircle (GetMousePosition inp)
            \<lparr>xc = xc (position (fruits s5 ! i)) + Finite 32,
             yc = yc (position (fruits s5 ! i)) + Finite 32\<rparr> (Finite 32) \<longrightarrow>
            fruits (for_loop MAX_FRUIT_COUNT (update_fruit inp) s5) ! i =
              (fruits s5 ! i)\<lparr>enabled := False\<rparr>) \<and>
         (enabled (fruits s5 ! i) \<and> \<not> yc (position (fruits s5 ! i)) > Finite 540 \<and>
          \<not> (slashing s5 \<and>
             CheckCollisionPointCircle (GetMousePosition inp)
               \<lparr>xc = xc (position (fruits s5 ! i)) + Finite 32,
                yc = yc (position (fruits s5 ! i)) + Finite 32\<rparr> (Finite 32)) \<longrightarrow>
            fruits (for_loop MAX_FRUIT_COUNT (update_fruit inp) s5) ! i =
              move_fruit (fruits s5 ! i) \<or>
            state (for_loop MAX_FRUIT_COUNT (update_fruit inp) s5) = loseState \<and>
            (fruits (for_loop MAX_FRUIT_COUNT (update_fruit inp) s5) ! i =
               (move_fruit (fruits s5 ! i))\<lparr>enabled := False\<rparr> \<or>
             fruits (for_loop MAX_FRUIT_COUNT (update_fruit inp) s5) ! i =
               (fruits s5 ! i)\<lparr>enabled := False\<rparr>))"
proof -
  define u1 where "u1 = for_loop i (update_fruit inp) s5"
  define u2 where "u2 = update_fruit inp i u1"
  define s' where "s' = for_loop MAX_FRUIT_COUNT (update_fruit inp) s5"
  define f where "f = fruits s5 ! i"
  have s': "s' = fold (update_fruit inp) [Suc i..<MAX_FRUIT_COUNT] u2"
    unfolding s'_def u2_def u1_def by (rule for_loop_split [OF assms(2)])
  have sized1: "pools_sized u1"
    using fruit_loop_frame [OF assms(1) less_imp_le [OF assms(2)], of inp] by (simp add: u1_def)
  have sized2: "pools_sized u2"
    using update_fruit_frame [OF sized1 assms(2), of inp] by (simp add: u2_def)
  have len1: "i < length (fruits u1)" and len2: "i < length (fruits u2)"
    using sized1 sized2 assms(2) by (simp_all add: pools_sized_def)
  have before: "fruits u1 ! i = f \<and> slashing u1 = slashing s5 \<and> state u1 = state s5
      \<or> state u1 = loseState \<and> pools_cleared u1 \<and> fruits u1 ! i = f\<lparr>enabled := False\<rparr>"
    using fruit_fold_other_slot [OF assms(1,2), of "[0..<i]" inp] assms(2)
    by (simp add: u1_def for_loop_def f_def)
  have after: "fruits s' ! i = fruits u2 ! i
      \<or> state s' = loseState \<and> fruits s' ! i = (fruits u2 ! i)\<lparr>enabled := False\<rparr>"
    using fruit_fold_other_slot [OF sized2 assms(2), of "[Suc i..<MAX_FRUIT_COUNT]" inp]
    by (auto simp: s')
  have step: "fruits u2 ! i =
     (if \<not> enabled (fruits u1 ! i) then fruits u1 ! i
      else if yc (position (fruits u1 ! i)) > Finite 540
      then (fruits u1 ! i)\<lparr>enabled := False\<rparr>
      else if slashing u1 \<and>
              CheckCollisionPointCircle (GetMousePosition inp)
                \<lparr>xc = xc (position (fruits u1 ! i)) + Finite 32,
                 yc = yc (position (fruits u1 ! i)) + Finite 32\<rparr> (Finite 32)
      then (fruits u1 ! i)\<lparr>enabled := False\<rparr>
      else move_fruit (fruits u1 ! i))"
    unfolding u2_def by (rule update_fruit_slot [OF sized1 assms(2)])
  have off: "\<not> enabled (f\<lparr>enabled := False\<rparr>)"
    by simp
  have twice: "f\<lparr>enabled := False\<rparr>\<lparr>enabled := False\<rparr> = f\<lparr>enabled := False\<rparr>"
    by simp
  from before have "(\<not> enabled f \<longrightarrow> fruits s' ! i = f) \<and>
         (enabled f \<and> yc (position f) > Finite 540 \<longrightarrow> fruits s' ! i = f\<lparr>enabled := False\<rparr>) \<and>
         (enabled f \<and> \<not> yc (position f) > Finite 540 \<and> slashing s5 \<and>
          CheckCollisionPointCircle (GetMousePosition inp)
            \<lparr>xc = xc (position f) + Finite 32, yc = yc (position f) + Finite 32\<rparr> (Finite 32) \<longrightarrow>
            fruits s' ! i = f\<lparr>enabled := False\<rparr>) \<and>
         (enabled f \<and> \<not> yc (position f) > Finite 540 \<and>
          \<not> (slashing s5 \<and>
             CheckCollisionPointCircle (GetMousePosition inp)
               \<lparr>xc = xc (position f) + Finite 32, yc = yc (position f) + Finite 32\<rparr>
               (Finite 32)) \<longrightarrow>
            fruits s' ! i = move_fruit f \<or>
            state s' = loseState \<and>
            (fruits s' ! i = (move_fruit f)\<lparr>enabled := False\<rparr> \<or>
             fruits s' ! i = f\<lparr>enabled := False\<rparr>))"
  proof
    assume a: "fruits u1 ! i = f \<and> slashing u1 = slashing s5 \<and> state u1 = state s5"
    show ?thesis
      using after step a by (auto simp: disabled_fruit_eq)
  next
    assume l: "state u1 = loseState \<and> pools_cleared u1 \<and> fruits u1 ! i = f\<lparr>enabled := False\<rparr>"
    then have "u2 = u1"
      using len1 by (simp add: u2_def update_fruit_cleared)
    moreover have "\<forall>n\<in>set [Suc i..<MAX_FRUIT_COUNT]. n < length (fruits u1)"
      using sized1 by (simp add: pools_sized_def)
    ultimately have "s' = u1"
      using l by (simp add: s' fruit_fold_cleared)
    then show ?thesis
      using l by (auto simp: disabled_fruit_eq)
  qed
  then show ?thesis
    unfolding s'_def f_def .
qed

text \<open>
  C3. The Play-state update returns the state that its loop over the 48 slots leaves,
  started from the state \<open>s5\<close> that follows the timers, the button events, the particles
  and the spawn of this frame; the loop runs \<open>update_fruit\<close> on slot \<open>j\<close> after the slots
  before it, and \<open>update_fruit\<close> tests, in this order: (1) if the vertical position of
  the enabled fruit exceeds the bottom bound 540 the fruit is disabled and nothing else
  changes (no score penalty); (2) otherwise, if the slash is active and the pointer is
  within the circle of radius 32 around the fruit's position offset by (32, 32),
  \<open>SlashFruit\<close> resolves the fruit; (3) otherwise the position is advanced by the velocity
  and the vertical velocity is decremented by \<open>gravity\<close>, each operation rounded to
  binary32; \<open>gravity\<close> is the float nearest to -10/60, which is negative, so the fruit
  accelerates downward. For every slot \<open>i\<close> of the pool, what the whole update leaves
  there is: a disabled fruit as it was; in cases (1) and (2) the fruit disabled, with the
  position and the velocity it had (no motion in this frame); in case (3) the moved
  fruit, unless a donut slashed in the same frame has ended the game, which disables the
  fruit (moved or not, as the donut's slot comes after or before).
\<close>

theorem fruit_step_order:
  assumes "pools_sized s" and "cursors_in_bounds s"
  shows "(\<exists>s5 s' sp.
       UpdatePlayState inp s = Some s' \<and>
       s' = for_loop MAX_FRUIT_COUNT (update_fruit inp) s5 \<and>
       SpawnFruit inp s = Some sp \<and>
       fruits s5 =
         (if spawnElapsed s + GetFrameTime inp > spawn_limit (totalElapsed s + GetFrameTime inp)
          then fruits sp else fruits s) \<and>
       slashing s5 =
         (IsMouseButtonPressed inp \<or> \<not> IsMouseButtonReleased inp \<and> slashing s) \<and>
       (\<forall>i<MAX_FRUIT_COUNT.
          (\<not> enabled (fruits s5 ! i) \<longrightarrow> fruits s' ! i = fruits s5 ! i) \<and>
          (enabled (fruits s5 ! i) \<and> yc (position (fruits s5 ! i)) > Finite 540 \<longrightarrow>
             fruits s' ! i = (fruits s5 ! i)\<lparr>enabled := False\<rparr>) \<and>
          (enabled (fruits s5 ! i) \<and> \<not> yc (position (fruits s5 ! i)) > Finite 540 \<and>
           slashing s5 \<and>
           CheckCollisionPointCircle (GetMousePosition inp)
             \<lparr>xc = xc (position (fruits s5 ! i)) + Finite 32,
              yc = yc (position (fruits s5 ! i)) + Finite 32\<rparr> (Finite 32) \<longrightarrow>
             fruits s' ! i = (fruits s5 ! i)\<lparr>enabled := False\<rparr>) \<and>
          (enabled (fruits s5 ! i) \<and> \<not> yc (position (fruits s5 ! i)) > Finite 540 \<and>
           \<not> (slashing s5 \<and>
              CheckCollisionPointCircle (GetMousePosition inp)
                \<lparr>xc = xc (position (fruits s5 ! i)) + Finite 32,
                 yc = yc (position (fruits s5 ! i)) + Finite 32\<rparr> (Finite 32)) \<longrightarrow>
             fruits s' ! i = move_fruit (fruits s5 ! i) \<or>
             state s' = loseState \<and>
             (fruits s' ! i = (move_fruit (fruits s5 ! i))\<lparr>enabled := False\<rparr> \<or>
              fruits s' ! i = (fruits s5 ! i)\<lparr>enabled := False\<rparr>)))) \<and>
     for_loop (Suc j) (update_fruit inp) u0 =
       update_fruit inp j (for_loop j (update_fruit inp) u0) \<and>
     update_fruit inp j u =
       (if \<not> enabled (fruits u ! j) then u
        else if yc (position (fruits u ! j)) > Finite 540
        then u\<lparr>fruits := (fruits u)[j := (fruits u ! j)\<lparr>enabled := False\<rparr>]\<rparr>
        else if slashing u \<and>
                CheckCollisionPointCircle (GetMousePosition inp)
                  \<lparr>xc = xc (position (fruits u ! j)) + Finite 32,
                   yc = yc (position (fruits u ! j)) + Finite 32\<rparr> (Finite 32)
        then SlashFruit j u
        else u\<lparr>fruits := (fruits u)[j := move_fruit (fruits u ! j)]\<rparr>) \<and>
     move_fruit f =
       f\<lparr>position := \<lparr>xc = xc (position f) + xc (velocity f),
                       yc = yc (position f) + yc (velocity f)\<rparr>,
         velocity := \<lparr>xc = xc (velocity f), yc = yc (velocity f) - gravity\<rparr>\<rparr> \<and>
     gravity = Finite (- (11184811 / 67108864)) \<and> gravity < 0"
proof -
  obtain s4 s5 where s4: "s4 = s\<lparr>totalElapsed := totalElapsed s + GetFrameTime inp,
         spawnElapsed := spawnElapsed s + GetFrameTime inp,
         slashing := IsMouseButtonPressed inp \<or> \<not> IsMouseButtonReleased inp \<and> slashing s,
         particles :=
           map (\<lambda>p. if penabled p
                    then p\<lparr>elapsed := elapsed p + GetFrameTime inp,
                           penabled := \<not> elapsed p + GetFrameTime inp > particleMaximumElapsed\<rparr>
                    else p)
             (if IsMouseButtonPressed inp \<or> \<not> IsMouseButtonReleased inp \<and> slashing s
              then (particles s)[nat (nextParticleIndex s) :=
                     \<lparr>pposition = GetMousePosition inp, elapsed = 0, penabled = True\<rparr>]
              else particles s),
         nextParticleIndex :=
           (if IsMouseButtonPressed inp \<or> \<not> IsMouseButtonReleased inp \<and> slashing s
            then (nextParticleIndex s + 1) mod int MAX_PARTICLE_COUNT
            else nextParticleIndex s)\<rparr>"
    and s5: "spawn_step inp s4 = Some s5"
    and upd: "UpdatePlayState inp s = Some (for_loop MAX_FRUIT_COUNT (update_fruit inp) s5)"
    using UpdatePlayState_phases [OF assms] by blast
  have c: "0 \<le> nextFruitIndex s" "nextFruitIndex s < int (length (fruits s))"
    using assms by (simp_all add: cursors_in_bounds_def pools_sized_def)
  have c4: "0 \<le> nextFruitIndex s4" "nextFruitIndex s4 < int (length (fruits s4))"
    using c by (simp_all add: s4)
  have sp: "SpawnFruit inp s = Some (the (SpawnFruit inp s))"
    by (simp add: SpawnFruit_Some [OF c])
  have same: "fruits (the (SpawnFruit inp s4)) = fruits (the (SpawnFruit inp s))"
    by (simp add: SpawnFruit_Some [OF c] SpawnFruit_Some [OF c4]) (simp add: s4)
  have fields: "length (fruits s5) = length (fruits s4)" "particles s5 = particles s4"
    "slashing s5 = slashing s4"
    "fruits s5 =
       (if spawnElapsed s4 > spawn_limit (totalElapsed s4)
        then fruits (the (SpawnFruit inp s4)) else fruits s4)"
    using spawn_step_fields [OF c4, of inp] s5 by auto
  have sized5: "pools_sized s5"
    using assms(1) by (simp add: pools_sized_def fields(1,2)) (simp add: s4)
  have pool: "fruits s5 =
         (if spawnElapsed s + GetFrameTime inp > spawn_limit (totalElapsed s + GetFrameTime inp)
          then fruits (the (SpawnFruit inp s)) else fruits s)"
    by (simp add: fields(4) same) (simp add: s4)
  have sl: "slashing s5 =
         (IsMouseButtonPressed inp \<or> \<not> IsMouseButtonReleased inp \<and> slashing s)"
    by (simp add: fields(3)) (simp add: s4)
  have "\<exists>s5 s' sp.
       UpdatePlayState inp s = Some s' \<and>
       s' = for_loop MAX_FRUIT_COUNT (update_fruit inp) s5 \<and>
       SpawnFruit inp s = Some sp \<and>
       fruits s5 =
         (if spawnElapsed s + GetFrameTime inp > spawn_limit (totalElapsed s + GetFrameTime inp)
          then fruits sp else fruits s) \<and>
       slashing s5 =
         (IsMouseButtonPressed inp \<or> \<not> IsMouseButtonReleased inp \<and> slashing s) \<and>
       (\<forall>i<MAX_FRUIT_COUNT.
          (\<not> enabled (fruits s5 ! i) \<longrightarrow> fruits s' ! i = fruits s5 ! i) \<and>
          (enabled (fruits s5 ! i) \<and> yc (position (fruits s5 ! i)) > Finite 540 \<longrightarrow>
             fruits s' ! i = (fruits s5 ! i)\<lparr>enabled := False\<rparr>) \<and>
          (enabled (fruits s5 ! i) \<and> \<not> yc (position (fruits s5 ! i)) > Finite 540 \<and>
           slashing s5 \<and>
           CheckCollisionPointCircle (GetMousePosition inp)
             \<lparr>xc = xc (position (fruits s5 ! i)) + Finite 32,
              yc = yc (position (fruits s5 ! i)) + Finite 32\<rparr> (Finite 32) \<longrightarrow>
             fruits s' ! i = (fruits s5 ! i)\<lparr>enabled := False\<rparr>) \<and>
          (enabled (fruits s5 ! i) \<and> \<not> yc (position (fruits s5 ! i)) > Finite 540 \<and>
           \<not> (slashing s5 \<and>
              CheckCollisionPointCircle (GetMousePosition inp)
                \<lparr>xc = xc (position (fruits s5 ! i)) + Finite 32,
                 yc = yc (position (fruits s5 ! i)) + Finite 32\<rparr> (Finite 32)) \<longrightarrow>
             fruits s' ! i = move_fruit (fruits s5 ! i) \<or>
             state s' = loseState \<and>
             (fruits s' ! i = (move_fruit (fruits s5 ! i))\<lparr>enabled := False\<rparr> \<or>
              fruits s' ! i = (fruits s5 ! i)\<lparr>enabled := False\<rparr>)))"
    using upd sp pool sl fruit_loop_slot [OF sized5, of _ inp] by blast
  moreover have "for_loop (Suc j) (update_fruit inp) u0 =
       update_fruit inp j (for_loop j (update_fruit inp) u0)"
    by (rule for_loop_Suc)
  moreover have "gravity < 0"
    by (simp add: gravity_value zero_float32_def)
  ultimately show ?thesis
    using update_fruit_steps [of inp j u] move_fruit_eq [of f] gravity_value by (intro conjI)
qed

theorem fruit_step_order_witness:
  "pools_sized example_missed \<and> cursors_in_bounds example_missed \<and>
   (\<exists>s'. UpdatePlayState example_input example_missed = Some s' \<and>
      fruits s' ! 0 =
        \<lparr>type = appleType, position = \<lparr>xc = Finite 100, yc = Finite 100\<rparr>,
         velocity = \<lparr>xc = Finite 2, yc = Finite (- 7)\<rparr>, enabled = False\<rparr> \<and>
      fruits s' ! 1 =
        \<lparr>type = bananaType, position = \<lparr>xc = Finite 300, yc = Finite 541\<rparr>,
         velocity = \<lparr>xc = Finite 0, yc = Finite 9\<rparr>, enabled = False\<rparr> \<and>
      fruits s' ! 2 =
        \<lparr>type = appleType, position = zero_vector, velocity = zero_vector, enabled = False\<rparr>) \<and>
   (\<exists>s'. UpdatePlayState far_input example_missed = Some s' \<and>
      fruits s' ! 0 =
        \<lparr>type = appleType, position = \<lparr>xc = Finite 102, yc = Finite 93\<rparr>,
         velocity = \<lparr>xc = Finite 2, yc = Finite (- (14330539 / 2097152))\<rparr>, enabled = True\<rparr>)"
proof -
  have h: "pools_sized example_missed" "cursors_in_bounds example_missed"
    using example_game_sized [of appleType] example_game_cursors [of appleType]
    by (simp_all add: example_missed_def pools_sized_def cursors_in_bounds_def)
  have v: "spawnElapsed example_missed = 0" "totalElapsed example_missed = 0"
    "slashing example_missed"
    "GetFrameTime example_input = Finite (1 / 64)" "GetFrameTime far_input = Finite (1 / 64)"
    "GetMousePosition example_input = \<lparr>xc = Finite 132, yc = Finite 132\<rparr>"
    "GetMousePosition far_input = \<lparr>xc = Finite 400, yc = Finite 300\<rparr>"
    "\<not> IsMouseButtonPressed example_input" "\<not> IsMouseButtonReleased example_input"
    "\<not> IsMouseButtonPressed far_input" "\<not> IsMouseButtonReleased far_input"
    by (simp_all add: example_missed_def example_game_def initial_game_eq static_storage_def
        example_input_def far_input_def)
  have p: "fruits example_missed ! 0 =
      \<lparr>type = appleType, position = \<lparr>xc = Finite 100, yc = Finite 100\<rparr>,
       velocity = \<lparr>xc = Finite 2, yc = Finite (- 7)\<rparr>, enabled = True\<rparr>"
    "fruits example_missed ! Suc 0 =
      \<lparr>type = bananaType, position = \<lparr>xc = Finite 300, yc = Finite 541\<rparr>,
       velocity = \<lparr>xc = Finite 0, yc = Finite 9\<rparr>, enabled = True\<rparr>"
    "fruits example_missed ! 2 =
      \<lparr>type = appleType, position = zero_vector, velocity = zero_vector, enabled = False\<rparr>"
    by (simp_all add: example_missed_def example_game_def initial_game_eq static_storage_def
        example_fruit_def MAX_FRUIT_COUNT_def)
  have n: "(0::nat) < MAX_FRUIT_COUNT" "(1::nat) < MAX_FRUIT_COUNT" "(2::nat) < MAX_FRUIT_COUNT"
    by (simp_all add: MAX_FRUIT_COUNT_def)
  have c: "\<not> (0::float32) + Finite (1 / 64) > spawn_limit (0 + Finite (1 / 64))"
    "CheckCollisionPointCircle \<lparr>xc = Finite 132, yc = Finite 132\<rparr>
       \<lparr>xc = Finite 100 + Finite 32, yc = Finite 100 + Finite 32\<rparr> (Finite 32)"
    "\<not> CheckCollisionPointCircle \<lparr>xc = Finite 400, yc = Finite 300\<rparr>
       \<lparr>xc = Finite 100 + Finite 32, yc = Finite 100 + Finite 32\<rparr> (Finite 32)"
    "move_fruit \<lparr>type = appleType, position = \<lparr>xc = Finite 100, yc = Finite 100\<rparr>,
       velocity = \<lparr>xc = Finite 2, yc = Finite (- 7)\<rparr>, enabled = True\<rparr> =
     \<lparr>type = appleType, position = \<lparr>xc = Finite 102, yc = Finite 93\<rparr>,
      velocity = \<lparr>xc = Finite 2, yc = Finite (- (14330539 / 2097152))\<rparr>, enabled = True\<rparr>"
    by code_simp+
  have o: "\<not> Finite 100 > Finite 540" "Finite 541 > Finite 540"
    by simp_all
  have playing: "map_option state (UpdatePlayState far_input example_missed) = Some playState"
    by code_simp
  have exone: "\<exists>s5 s' sp.
       UpdatePlayState example_input example_missed = Some s' \<and>
       s' = for_loop MAX_FRUIT_COUNT (update_fruit example_input) s5 \<and>
       SpawnFruit example_input example_missed = Some sp \<and>
       fruits s5 =
         (if spawnElapsed example_missed + GetFrameTime example_input
               > spawn_limit (totalElapsed example_missed + GetFrameTime example_input)
          then fruits sp else fruits example_missed) \<and>
       slashing s5 =
         (IsMouseButtonPressed example_input \<or>
          \<not> IsMouseButtonReleased example_input \<and> slashing example_missed) \<and>
       (\<forall>i<MAX_FRUIT_COUNT.
          (\<not> enabled (fruits s5 ! i) \<longrightarrow> fruits s' ! i = fruits s5 ! i) \<and>
          (enabled (fruits s5 ! i) \<and> yc (position (fruits s5 ! i)) > Finite 540 \<longrightarrow>
             fruits s' ! i = (fruits s5 ! i)\<lparr>enabled := False\<rparr>) \<and>
          (enabled (fruits s5 ! i) \<and> \<not> yc (position (fruits s5 ! i)) > Finite 540 \<and>
           slashing s5 \<and>
           CheckCollisionPointCircle (GetMousePosition example_input)
             \<lparr>xc = xc (position (fruits s5 ! i)) + Finite 32,
              yc = yc (position (fruits s5 ! i)) + Finite 32\<rparr> (Finite 32) \<longrightarrow>
             fruits s' ! i = (fruits s5 ! i)\<lparr>enabled := False\<rparr>) \<and>
          (enabled (fruits s5 ! i) \<and> \<not> yc (position (fruits s5 ! i)) > Finite 540 \<and>
           \<not> (slashing s5 \<and>
              CheckCollisionPointCircle (GetMousePosition example_input)
                \<lparr>xc = xc (position (fruits s5 ! i)) + Finite 32,
                 yc = yc (position (fruits s5 ! i)) + Finite 32\<rparr> (Finite 32)) \<longrightarrow>
             fruits s' ! i = move_fruit (fruits s5 ! i) \<or>
             state s' = loseState \<and>
             (fruits s' ! i = (move_fruit (fruits s5 ! i))\<lparr>enabled := False\<rparr> \<or>
              fruits s' ! i = (fruits s5 ! i)\<lparr>enabled := False\<rparr>)))"
    by (rule fruit_step_order [OF h, of example_input, THEN conjunct1])
  from exone have one: "\<exists>s'. UpdatePlayState example_input example_missed = Some s' \<and>
      fruits s' ! 0 =
        \<lparr>type = appleType, position = \<lparr>xc = Finite 100, yc = Finite 100\<rparr>,
         velocity = \<lparr>xc = Finite 2, yc = Finite (- 7)\<rparr>, enabled = False\<rparr> \<and>
      fruits s' ! 1 =
        \<lparr>type = bananaType, position = \<lparr>xc = Finite 300, yc = Finite 541\<rparr>,
         velocity = \<lparr>xc = Finite 0, yc = Finite 9\<rparr>, enabled = False\<rparr> \<and>
      fruits s' ! 2 =
        \<lparr>type = appleType, position = zero_vector, velocity = zero_vector, enabled = False\<rparr>"
  proof (elim exE conjE)
    fix s5 s' sp
    assume u: "UpdatePlayState example_input example_missed = Some s'"
      and f0: "fruits s5 =
           (if spawnElapsed example_missed + GetFrameTime example_input
                 > spawn_limit (totalElapsed example_missed + GetFrameTime example_input)
            then fruits sp else fruits example_missed)"
      and sl0: "slashing s5 =
           (IsMouseButtonPressed example_input \<or>
            \<not> IsMouseButtonReleased example_input \<and> slashing example_missed)"
      and each: "(\<forall>i<MAX_FRUIT_COUNT.
            (\<not> enabled (fruits s5 ! i) \<longrightarrow> fruits s' ! i = fruits s5 ! i) \<and>
            (enabled (fruits s5 ! i) \<and> yc (position (fruits s5 ! i)) > Finite 540 \<longrightarrow>
               fruits s' ! i = (fruits s5 ! i)\<lparr>enabled := False\<rparr>) \<and>
            (enabled (fruits s5 ! i) \<and> \<not> yc (position (fruits s5 ! i)) > Finite 540 \<and>
             slashing s5 \<and>
             CheckCollisionPointCircle (GetMousePosition example_input)
               \<lparr>xc = xc (position (fruits s5 ! i)) + Finite 32,
                yc = yc (position (fruits s5 ! i)) + Finite 32\<rparr> (Finite 32) \<longrightarrow>
               fruits s' ! i = (fruits s5 ! i)\<lparr>enabled := False\<rparr>) \<and>
            (enabled (fruits s5 ! i) \<and> \<not> yc (position (fruits s5 ! i)) > Finite 540 \<and>
             \<not> (slashing s5 \<and>
                CheckCollisionPointCircle (GetMousePosition example_input)
                  \<lparr>xc = xc (position (fruits s5 ! i)) + Finite 32,
                   yc = yc (position (fruits s5 ! i)) + Finite 32\<rparr> (Finite 32)) \<longrightarrow>
               fruits s' ! i = move_fruit (fruits s5 ! i) \<or>
               state s' = loseState \<and>
               (fruits s' ! i = (move_fruit (fruits s5 ! i))\<lparr>enabled := False\<rparr> \<or>
                fruits s' ! i = (fruits s5 ! i)\<lparr>enabled := False\<rparr>)))"
    have f: "fruits s5 = fruits example_missed"
      using f0 unfolding v by (simp only: c(1) if_False)
    have sl: "slashing s5"
      using sl0 by (simp add: v)
    have "fruits s' ! 0 =
          \<lparr>type = appleType, position = \<lparr>xc = Finite 100, yc = Finite 100\<rparr>,
           velocity = \<lparr>xc = Finite 2, yc = Finite (- 7)\<rparr>, enabled = False\<rparr>"
      using each [rule_format, OF n(1)] c(2) sl o by (simp add: f p v)
    moreover have "fruits s' ! 1 =
          \<lparr>type = bananaType, position = \<lparr>xc = Finite 300, yc = Finite 541\<rparr>,
           velocity = \<lparr>xc = Finite 0, yc = Finite 9\<rparr>, enabled = False\<rparr>"
      using each [rule_format, OF n(2)] o by (simp add: f p v)
    moreover have "fruits s' ! 2 =
          \<lparr>type = appleType, position = zero_vector, velocity = zero_vector, enabled = False\<rparr>"
      using each [rule_format, OF n(3)] by (simp add: f p v)
    ultimately show ?thesis
      using u by blast
  qed
  have extwo: "\<exists>t5 t' sp.
       UpdatePlayState far_input example_missed = Some t' \<and>
       t' = for_loop MAX_FRUIT_COUNT (update_fruit far_input) t5 \<and>
       SpawnFruit far_input example_missed = Some sp \<and>
       fruits t5 =
         (if spawnElapsed example_missed + GetFrameTime far_input
               > spawn_limit (totalElapsed example_missed + GetFrameTime far_input)
          then fruits sp else fruits example_missed) \<and>
       slashing t5 =
         (IsMouseButtonPressed far_input \<or>
          \<not> IsMouseButtonReleased far_input \<and> slashing example_missed) \<and>
       (\<forall>i<MAX_FRUIT_COUNT.
          (\<not> enabled (fruits t5 ! i) \<longrightarrow> fruits t' ! i = fruits t5 ! i) \<and>
          (enabled (fruits t5 ! i) \<and> yc (position (fruits t5 ! i)) > Finite 540 \<longrightarrow>
             fruits t' ! i = (fruits t5 ! i)\<lparr>enabled := False\<rparr>) \<and>
          (enabled (fruits t5 ! i) \<and> \<not> yc (position (fruits t5 ! i)) > Finite 540 \<and>
           slashing t5 \<and>
           CheckCollisionPointCircle (GetMousePosition far_input)
             \<lparr>xc = xc (position (fruits t5 ! i)) + Finite 32,
              yc = yc (position (fruits t5 ! i)) + Finite 32\<rparr> (Finite 32) \<longrightarrow>
             fruits t' ! i = (fruits t5 ! i)\<lparr>enabled := False\<rparr>) \<and>
          (enabled (fruits t5 ! i) \<and> \<not> yc (position (fruits t5 ! i)) > Finite 540 \<and>
           \<not> (slashing t5 \<and>
              CheckCollisionPointCircle (GetMousePosition far_input)
                \<lparr>xc = xc (position (fruits t5 ! i)) + Finite 32,
                 yc = yc (position (fruits t5 ! i)) + Finite 32\<rparr> (Finite 32)) \<longrightarrow>
             fruits t' ! i = move_fruit (fruits t5 ! i) \<or>
             state t' = loseState \<and>
             (fruits t' ! i = (move_fruit (fruits t5 ! i))\<lparr>enabled := False\<rparr> \<or>
              fruits t' ! i = (fruits t5 ! i)\<lparr>enabled := False\<rparr>)))"
    by (rule fruit_step_order [OF h, of far_input, THEN conjunct1])
  from extwo have two: "\<exists>s'. UpdatePlayState far_input example_missed = Some s' \<and>
      fruits s' ! 0 =
        \<lparr>type = appleType, position = \<lparr>xc = Finite 102, yc = Finite 93\<rparr>,
         velocity = \<lparr>xc = Finite 2, yc = Finite (- (14330539 / 2097152))\<rparr>, enabled = True\<rparr>"
  proof (elim exE conjE)
    fix t5 t' sp
    assume u': "UpdatePlayState far_input example_missed = Some t'"
      and f0': "fruits t5 =
           (if spawnElapsed example_missed + GetFrameTime far_input
                 > spawn_limit (totalElapsed example_missed + GetFrameTime far_input)
            then fruits sp else fruits example_missed)"
      and each': "(\<forall>i<MAX_FRUIT_COUNT.
            (\<not> enabled (fruits t5 ! i) \<longrightarrow> fruits t' ! i = fruits t5 ! i) \<and>
            (enabled (fruits t5 ! i) \<and> yc (position (fruits t5 ! i)) > Finite 540 \<longrightarrow>
               fruits t' ! i = (fruits t5 ! i)\<lparr>enabled := False\<rparr>) \<and>
            (enabled (fruits t5 ! i) \<and> \<not> yc (position (fruits t5 ! i)) > Finite 540 \<and>
             slashing t5 \<and>
             CheckCollisionPointCircle (GetMousePosition far_input)
               \<lparr>xc = xc (position (fruits t5 ! i)) + Finite 32,
                yc = yc (position (fruits t5 ! i)) + Finite 32\<rparr> (Finite 32) \<longrightarrow>
               fruits t' ! i = (fruits t5 ! i)\<lparr>enabled := False\<rparr>) \<and>
            (enabled (fruits t5 ! i) \<and> \<not> yc (position (fruits t5 ! i)) > Finite 540 \<and>
             \<not> (slashing t5 \<and>
                CheckCollisionPointCircle (GetMousePosition far_input)
                  \<lparr>xc = xc (position (fruits t5 ! i)) + Finite 32,
                   yc = yc (position (fruits t5 ! i)) + Finite 32\<rparr> (Finite 32)) \<longrightarrow>
               fruits t' ! i = move_fruit (fruits t5 ! i) \<or>
               state t' = loseState \<and>
               (fruits t' ! i = (move_fruit (fruits t5 ! i))\<lparr>enabled := False\<rparr> \<or>
                fruits t' ! i = (fruits t5 ! i)\<lparr>enabled := False\<rparr>)))"
    have f': "fruits t5 = fruits example_missed"
      using f0' unfolding v by (simp only: c(1) if_False)
    have "state t' = playState"
      using playing by (simp add: u')
    then have "fruits t' ! 0 =
          \<lparr>type = appleType, position = \<lparr>xc = Finite 102, yc = Finite 93\<rparr>,
           velocity = \<lparr>xc = Finite 2, yc = Finite (- (14330539 / 2097152))\<rparr>, enabled = True\<rparr>"
      using each' [rule_format, OF n(1)] c(3,4) o by (simp add: f' p v)
    with u' show ?thesis
      by blast
  qed
  show ?thesis
    using h one two by (intro conjI)
qed

section \<open>Invariants of the main loop\<close>

lemma UpdatePlayState_cursors:
  assumes "pools_sized s" and "cursors_in_bounds s"
  shows "\<exists>s'. UpdatePlayState inp s = Some s' \<and> pools_sized s' \<and>
     nextFruitIndex s' =
       (if spawnElapsed s + GetFrameTime inp
             > max (minimumSpawnRate - (totalElapsed s + GetFrameTime inp) / maximumElapsed)
                 maximumSpawnRate
        then (nextFruitIndex s + 1) mod 48 else nextFruitIndex s) \<and>
     nextParticleIndex s' =
       (if IsMouseButtonPressed inp \<or> \<not> IsMouseButtonReleased inp \<and> slashing s
        then (nextParticleIndex s + 1) mod 16 else nextParticleIndex s)"
proof -
  obtain s4 s5 where s4: "s4 = s\<lparr>totalElapsed := totalElapsed s + GetFrameTime inp,
         spawnElapsed := spawnElapsed s + GetFrameTime inp,
         slashing := IsMouseButtonPressed inp \<or> \<not> IsMouseButtonReleased inp \<and> slashing s,
         particles :=
           map (\<lambda>p. if penabled p
                    then p\<lparr>elapsed := elapsed p + GetFrameTime inp,
                           penabled := \<not> elapsed p + GetFrameTime inp > particleMaximumElapsed\<rparr>
                    else p)
             (if IsMouseButtonPressed inp \<or> \<not> IsMouseButtonReleased inp \<and> slashing s
              then (particles s)[nat (nextParticleIndex s) :=
                     \<lparr>pposition = GetMousePosition inp, elapsed = 0, penabled = True\<rparr>]
              else particles s),
         nextParticleIndex :=
           (if IsMouseButtonPressed inp \<or> \<not> IsMouseButtonReleased inp \<and> slashing s
            then (nextParticleIndex s + 1) mod int MAX_PARTICLE_COUNT
            else nextParticleIndex s)\<rparr>"
    and s5: "spawn_step inp s4 = Some s5"
    and upd: "UpdatePlayState inp s = Some (for_loop MAX_FRUIT_COUNT (update_fruit inp) s5)"
    using UpdatePlayState_phases [OF assms] by blast
  have f4: "0 \<le> nextFruitIndex s4" "nextFruitIndex s4 < int (length (fruits s4))"
    using assms by (simp_all add: s4 cursors_in_bounds_def pools_sized_def)
  have fields: "length (fruits s5) = length (fruits s4)" "particles s5 = particles s4"
    "nextParticleIndex s5 = nextParticleIndex s4"
    "nextFruitIndex s5 =
       (if spawnElapsed s4 > spawn_limit (totalElapsed s4)
        then (nextFruitIndex s4 + 1) mod int MAX_FRUIT_COUNT else nextFruitIndex s4)"
    using spawn_step_fields [OF f4, of inp] s5 by auto
  have sized5: "pools_sized s5"
    using assms(1) by (simp add: pools_sized_def fields(1,2)) (simp add: s4)
  have nf: "nextFruitIndex s5 =
       (if spawnElapsed s + GetFrameTime inp
             > max (minimumSpawnRate - (totalElapsed s + GetFrameTime inp) / maximumElapsed)
                 maximumSpawnRate
        then (nextFruitIndex s + 1) mod 48 else nextFruitIndex s)"
    by (simp add: fields(4) spawn_limit_max [symmetric]) (simp add: s4 MAX_FRUIT_COUNT_def)
  have np: "nextParticleIndex s5 =
       (if IsMouseButtonPressed inp \<or> \<not> IsMouseButtonReleased inp \<and> slashing s
        then (nextParticleIndex s + 1) mod 16 else nextParticleIndex s)"
    by (simp add: fields(3)) (simp add: s4 MAX_PARTICLE_COUNT_def)
  show ?thesis
    using fruit_loop_frame [OF sized5 order_refl, of inp] upd nf np by simp
qed

lemma Update_cursors:
  assumes "pools_sized s" and "cursors_in_bounds s"
  shows "\<exists>s'. Update inp s = Some s' \<and> pools_sized s' \<and>
     nextFruitIndex s' =
       (if state s = playState \<and>
           spawnElapsed s + GetFrameTime inp
             > max (minimumSpawnRate - (totalElapsed s + GetFrameTime inp) / maximumElapsed)
                 maximumSpawnRate
        then (nextFruitIndex s + 1) mod 48 else nextFruitIndex s) \<and>
     nextParticleIndex s' =
       (if state s = playState \<and>
           (IsMouseButtonPressed inp \<or> \<not> IsMouseButtonReleased inp \<and> slashing s)
        then (nextParticleIndex s + 1) mod 16 else nextParticleIndex s)"
proof (cases "state s")
  case startState
  then show ?thesis
    using assms(1)
    by (simp add: Update_def UpdateStartState_def FromStartToPlayState_def pools_sized_def)
next
  case playState
  then show ?thesis
    using UpdatePlayState_cursors [OF assms, of inp] by (simp add: Update_def)
next
  case loseState
  then show ?thesis
    using assms(1)
    by (simp add: Update_def UpdateLoseState_def FromLoseToStartState_def pools_sized_def)
qed

lemma Update_invariant:
  assumes "pools_sized s" and "cursors_in_bounds s"
  shows "\<exists>s'. Update inp s = Some s' \<and> pools_sized s' \<and> cursors_in_bounds s'"
proof -
  from Update_cursors [OF assms, of inp]
  obtain s' where s': "Update inp s = Some s'" "pools_sized s'"
    and nf: "nextFruitIndex s' = (nextFruitIndex s + 1) mod 48 \<or>
             nextFruitIndex s' = nextFruitIndex s"
    and np: "nextParticleIndex s' = (nextParticleIndex s + 1) mod 16 \<or>
             nextParticleIndex s' = nextParticleIndex s"
    by metis
  have "cursors_in_bounds s'"
    using assms(2) nf np
    by (auto simp: cursors_in_bounds_def MAX_FRUIT_COUNT_def MAX_PARTICLE_COUNT_def)
  with s' show ?thesis by simp
qed

lemma run_frames_invariant:
  assumes "pools_sized s" and "cursors_in_bounds s"
  shows "\<exists>s'. run_frames inps s = Some s' \<and> pools_sized s' \<and> cursors_in_bounds s'"
  using assms
proof (induction inps arbitrary: s)
  case Nil
  then show ?case by simp
next
  case (Cons inp inps)
  from Update_invariant [OF Cons.prems, of inp]
  obtain t where t: "Update inp s = Some t" "pools_sized t" "cursors_in_bounds t"
    by blast
  from Cons.IH [OF t(2,3)] t(1) show ?case by simp
qed

lemma initial_game_invariant: "pools_sized initial_game" "cursors_in_bounds initial_game"
  by (simp_all add: initial_game_eq static_storage_def pools_sized_def cursors_in_bounds_def
      MAX_FRUIT_COUNT_def MAX_PARTICLE_COUNT_def)

text \<open>
  C9. After every sequence of frames from the initialized state, the number of enabled
  fruit slots is at most 48 and the number of enabled particle slots is at most 16.
\<close>

theorem enabled_counts_bounded:
  "\<exists>s. run_frames inps initial_game = Some s \<and>
       length (filter enabled (fruits s)) \<le> 48 \<and>
       length (filter penabled (particles s)) \<le> 16"
proof -
  from run_frames_invariant [OF initial_game_invariant, of inps]
  obtain s where s: "run_frames inps initial_game = Some s" "pools_sized s"
    by blast
  have "length (filter enabled (fruits s)) \<le> length (fruits s)"
    "length (filter penabled (particles s)) \<le> length (particles s)"
    by (rule length_filter_le)+
  with s show ?thesis
    by (auto simp: pools_sized_def MAX_FRUIT_COUNT_def MAX_PARTICLE_COUNT_def)
qed

theorem enabled_counts_bounded_witness:
  "\<exists>s. run_frames [example_input\<lparr>IsMouseButtonPressed := True\<rparr>, example_input] initial_game
         = Some s \<and>
       length (filter enabled (fruits s)) \<le> 48 \<and>
       length (filter penabled (particles s)) \<le> 16"
  by (rule enabled_counts_bounded)

lemma disable_fruits_cursors:
  "nextFruitIndex (for_loop n disable_fruit s) = nextFruitIndex s \<and>
   nextParticleIndex (for_loop n disable_fruit s) = nextParticleIndex s"
  by (induction n) (simp_all add: for_loop_0 for_loop_Suc disable_fruit_def)

lemma disable_particles_cursors:
  "nextFruitIndex (for_loop n disable_particle s) = nextFruitIndex s \<and>
   nextParticleIndex (for_loop n disable_particle s) = nextParticleIndex s"
  by (induction n) (simp_all add: for_loop_0 for_loop_Suc disable_particle_def)

text \<open>
  C10. \<open>Initialize\<close> sets both write cursors to 0. After every sequence of frames from
  the initialized state every update was defined (no write through a cursor left its
  array), the fruit write cursor lies in [0, 48) and the particle write cursor in
  [0, 16). None of the three state transitions changes a cursor. One update advances the
  fruit cursor (by one, modulo 48) exactly when it runs in the Play state and the spawn
  is triggered (the test of C4, in binary32), and the particle cursor (by one, modulo 16) exactly when it runs in the
  Play state and \<open>slashing\<close> is set after the frame's button events.
\<close>

theorem cursors_stay_in_bounds:
  "(\<exists>s. run_frames inps initial_game = Some s \<and>
       0 \<le> nextFruitIndex s \<and> nextFruitIndex s < 48 \<and> length (fruits s) = 48 \<and>
       0 \<le> nextParticleIndex s \<and> nextParticleIndex s < 16 \<and> length (particles s) = 16) \<and>
   nextFruitIndex initial_game = 0 \<and> nextParticleIndex initial_game = 0 \<and>
   nextFruitIndex (FromStartToPlayState t) = nextFruitIndex t \<and>
   nextParticleIndex (FromStartToPlayState t) = nextParticleIndex t \<and>
   nextFruitIndex (FromPlayToLoseState t) = nextFruitIndex t \<and>
   nextParticleIndex (FromPlayToLoseState t) = nextParticleIndex t \<and>
   nextFruitIndex (FromLoseToStartState t) = nextFruitIndex t \<and>
   nextParticleIndex (FromLoseToStartState t) = nextParticleIndex t \<and>
   (pools_sized t \<and> cursors_in_bounds t \<longrightarrow>
      (\<exists>t'. Update inp t = Some t' \<and>
         nextFruitIndex t' =
           (if state t = playState \<and>
               spawnElapsed t + GetFrameTime inp
                 > max (minimumSpawnRate - (totalElapsed t + GetFrameTime inp) / maximumElapsed)
                     maximumSpawnRate
            then (nextFruitIndex t + 1) mod 48 else nextFruitIndex t) \<and>
         nextParticleIndex t' =
           (if state t = playState \<and>
               (IsMouseButtonPressed inp \<or> \<not> IsMouseButtonReleased inp \<and> slashing t)
            then (nextParticleIndex t + 1) mod 16 else nextParticleIndex t)))"
proof -
  from run_frames_invariant [OF initial_game_invariant, of inps]
  obtain s where s: "run_frames inps initial_game = Some s" "pools_sized s" "cursors_in_bounds s"
    by blast
  then have reach: "\<exists>s. run_frames inps initial_game = Some s \<and>
       0 \<le> nextFruitIndex s \<and> nextFruitIndex s < 48 \<and> length (fruits s) = 48 \<and>
       0 \<le> nextParticleIndex s \<and> nextParticleIndex s < 16 \<and> length (particles s) = 16"
    by (simp add: pools_sized_def cursors_in_bounds_def MAX_FRUIT_COUNT_def
        MAX_PARTICLE_COUNT_def)
  have init: "nextFruitIndex initial_game = 0" "nextParticleIndex initial_game = 0"
    by (simp_all add: initial_game_eq static_storage_def)
  have trans: "nextFruitIndex (FromStartToPlayState t) = nextFruitIndex t"
    "nextParticleIndex (FromStartToPlayState t) = nextParticleIndex t"
    "nextFruitIndex (FromPlayToLoseState t) = nextFruitIndex t"
    "nextParticleIndex (FromPlayToLoseState t) = nextParticleIndex t"
    "nextFruitIndex (FromLoseToStartState t) = nextFruitIndex t"
    "nextParticleIndex (FromLoseToStartState t) = nextParticleIndex t"
    by (simp_all add: FromStartToPlayState_def FromPlayToLoseState_def FromLoseToStartState_def
        Let_def disable_fruits_cursors disable_particles_cursors)
  have step: "pools_sized t \<and> cursors_in_bounds t \<longrightarrow>
      (\<exists>t'. Update inp t = Some t' \<and>
         nextFruitIndex t' =
           (if state t = playState \<and>
               spawnElapsed t + GetFrameTime inp
                 > max (minimumSpawnRate - (totalElapsed t + GetFrameTime inp) / maximumElapsed)
                     maximumSpawnRate
            then (nextFruitIndex t + 1) mod 48 else nextFruitIndex t) \<and>
         nextParticleIndex t' =
           (if state t = playState \<and>
               (IsMouseButtonPressed inp \<or> \<not> IsMouseButtonReleased inp \<and> slashing t)
            then (nextParticleIndex t + 1) mod 16 else nextParticleIndex t))"
    using Update_cursors [of t inp] by blast
  show ?thesis
    using reach init trans step by (intro conjI)
qed

theorem cursors_stay_in_bounds_witness:
  "pools_sized (example_game appleType) \<and> cursors_in_bounds (example_game appleType) \<and>
   state (example_game appleType) = playState \<and>
   (\<exists>s. run_frames [example_input\<lparr>IsMouseButtonPressed := True\<rparr>, example_input] initial_game
          = Some s \<and>
        0 \<le> nextFruitIndex s \<and> nextFruitIndex s < 48 \<and>
        0 \<le> nextParticleIndex s \<and> nextParticleIndex s < 16) \<and>
   (\<exists>t'. Update example_input (example_game appleType) = Some t' \<and>
         nextFruitIndex t' = 0 \<and> nextParticleIndex t' = 1)"
proof -
  have v: "state (example_game appleType) = playState"
    "slashing (example_game appleType)"
    "spawnElapsed (example_game appleType) = 0" "totalElapsed (example_game appleType) = 0"
    "nextFruitIndex (example_game appleType) = 0" "nextParticleIndex (example_game appleType) = 0"
    "GetFrameTime example_input = Finite (1 / 64)"
    "\<not> IsMouseButtonPressed example_input" "\<not> IsMouseButtonReleased example_input"
    by (simp_all add: example_game_def initial_game_eq static_storage_def example_input_def)
  have c: "\<not> (0::float32) + Finite (1 / 64)
      > max (minimumSpawnRate - (0 + Finite (1 / 64)) / maximumElapsed) maximumSpawnRate"
    by code_simp
  have h: "pools_sized (example_game appleType) \<and> cursors_in_bounds (example_game appleType)"
    using example_game_sized [of appleType] example_game_cursors [of appleType] by simp
  note t = cursors_stay_in_bounds
      [of "[example_input\<lparr>IsMouseButtonPressed := True\<rparr>, example_input]"
          "example_game appleType" example_input]
  have reach: "\<exists>s. run_frames [example_input\<lparr>IsMouseButtonPressed := True\<rparr>, example_input]
          initial_game = Some s \<and>
        0 \<le> nextFruitIndex s \<and> nextFruitIndex s < 48 \<and>
        0 \<le> nextParticleIndex s \<and> nextParticleIndex s < 16"
    using t [THEN conjunct1] by blast
  have "pools_sized (example_game appleType) \<and> cursors_in_bounds (example_game appleType) \<longrightarrow>
      (\<exists>t'. Update example_input (example_game appleType) = Some t' \<and>
         nextFruitIndex t' =
           (if state (example_game appleType) = playState \<and>
               spawnElapsed (example_game appleType) + GetFrameTime example_input
                 > max (minimumSpawnRate -
                     (totalElapsed (example_game appleType) + GetFrameTime example_input)
                       / maximumElapsed) maximumSpawnRate
            then (nextFruitIndex (example_game appleType) + 1) mod 48
            else nextFruitIndex (example_game appleType)) \<and>
         nextParticleIndex t' =
           (if state (example_game appleType) = playState \<and>
               (IsMouseButtonPressed example_input \<or>
                \<not> IsMouseButtonReleased example_input \<and> slashing (example_game appleType))
            then (nextParticleIndex (example_game appleType) + 1) mod 16
            else nextParticleIndex (example_game appleType)))"
    using t by (elim conjE)
  with h have "\<exists>t'. Update example_input (example_game appleType) = Some t' \<and>
         nextFruitIndex t' =
           (if state (example_game appleType) = playState \<and>
               spawnElapsed (example_game appleType) + GetFrameTime example_input
                 > max (minimumSpawnRate -
                     (totalElapsed (example_game appleType) + GetFrameTime example_input)
                       / maximumElapsed) maximumSpawnRate
            then (nextFruitIndex (example_game appleType) + 1) mod 48
            else nextFruitIndex (example_game appleType)) \<and>
         nextParticleIndex t' =
           (if state (example_game appleType) = playState \<and>
               (IsMouseButtonPressed example_input \<or>
                \<not> IsMouseButtonReleased example_input \<and> slashing (example_game appleType))
            then (nextParticleIndex (example_game appleType) + 1) mod 16
            else nextParticleIndex (example_game appleType))"
    by (rule mp [rotated])
  then have step: "\<exists>t'. Update example_input (example_game appleType) = Some t' \<and>
         nextFruitIndex t' = 0 \<and> nextParticleIndex t' = 1"
    unfolding v(1,3,4,5,6,7) using c by (simp add: v(2,8,9))
  show ?thesis
    using h v(1) reach step by (intro conjI) blast+
qed

end
